theory Spec2Isabelle
  imports Complex_Main "HOL-Library.AList" "HOL-Library.Sublist"
begin

section \<open>Python values, dictionaries and exceptions\<close>

text \<open>
  The orchestration code passes JSON-like values around: job parameters, provider results,
  HTTP response bodies. A dictionary keeps its insertion order, so it is an association
  list; \<open>AList.update\<close> overwrites an existing key in place and appends a new one, which
  is what \<^verbatim>\<open>d[k] = v\<close> does.
\<close>

datatype pyval =
    VNone
  | VBool bool
  | VInt int
  | VFloat rat
  | VStr string
  | VList "pyval list"
  | VDict "(string \<times> pyval) list"

type_synonym pydict = "(string \<times> pyval) list"

datatype exn =
    TypeError string
  | ValueError string
  | KeyError string
  | AttributeError string
  | IndexError string
  | ImportError string
  | OtherError string

text \<open>A name between single quotes, as error messages and the repr of a string show it.\<close>

definition quoted :: "string \<Rightarrow> string" where
  "quoted s = CHR 0x27 # s @ [CHR 0x27]"

text \<open>\<^verbatim>\<open>str(e)\<close>; a \<^verbatim>\<open>KeyError\<close> carries the repr of its key and prints it.\<close>

fun exn_str :: "exn \<Rightarrow> string" where
  "exn_str (TypeError m) = m"
| "exn_str (ValueError m) = m"
| "exn_str (KeyError k) = k"
| "exn_str (AttributeError m) = m"
| "exn_str (IndexError m) = m"
| "exn_str (ImportError m) = m"
| "exn_str (OtherError m) = m"

text \<open>Truthiness, as \<^verbatim>\<open>if v:\<close> tests it.\<close>

fun truthy :: "pyval \<Rightarrow> bool" where
  "truthy VNone = False"
| "truthy (VBool b) = b"
| "truthy (VInt n) = (n \<noteq> 0)"
| "truthy (VFloat r) = (r \<noteq> 0)"
| "truthy (VStr s) = (s \<noteq> [])"
| "truthy (VList xs) = (xs \<noteq> [])"
| "truthy (VDict d) = (d \<noteq> [])"

text \<open>\<^verbatim>\<open>d.get(k)\<close> and \<^verbatim>\<open>d.get(k, default)\<close> on a dictionary.\<close>

definition dict_get :: "pydict \<Rightarrow> string \<Rightarrow> pyval \<Rightarrow> pyval" where
  "dict_get d k dflt = (case map_of d k of Some v \<Rightarrow> v | None \<Rightarrow> dflt)"

definition has_key :: "pydict \<Rightarrow> string \<Rightarrow> bool" where
  "has_key d k = (map_of d k \<noteq> None)"

definition setdefault :: "string \<Rightarrow> pyval \<Rightarrow> pydict \<Rightarrow> pydict" where
  "setdefault k v d = (if has_key d k then d else d @ [(k, v)])"

text \<open>\<^verbatim>\<open>t.startswith(s)\<close> and \<^verbatim>\<open>s in t\<close> on strings.\<close>

fun startswith :: "string \<Rightarrow> string \<Rightarrow> bool" where
  "startswith t [] = True"
| "startswith [] (c # s) = False"
| "startswith (d # t) (c # s) = (d = c \<and> startswith t s)"

fun substring :: "string \<Rightarrow> string \<Rightarrow> bool" where
  "substring s [] = (s = [])"
| "substring s (c # t) = (startswith (c # t) s \<or> substring s t)"

text \<open>Whether a text occurs in some string (or key) anywhere inside a value.\<close>

fun occurs_in :: "string \<Rightarrow> pyval \<Rightarrow> bool" where
  "occurs_in s (VStr t) = substring s t"
| "occurs_in s (VList xs) = (\<exists>x \<in> set xs. occurs_in s x)"
| "occurs_in s (VDict d) = (\<exists>kv \<in> set d. substring s (fst kv) \<or> occurs_in s (snd kv))"
| "occurs_in s VNone = False"
| "occurs_in s (VBool b) = False"
| "occurs_in s (VInt n) = False"
| "occurs_in s (VFloat r) = False"

text \<open>
  The operations the decoding code applies to values whose type it does not check. Each
  raises as Python does on a value of the wrong type (the wording of the messages is
  CPython 3.11's).
\<close>

fun type_name :: "pyval \<Rightarrow> string" where
  "type_name VNone = ''NoneType''"
| "type_name (VBool b) = ''bool''"
| "type_name (VInt n) = ''int''"
| "type_name (VFloat r) = ''float''"
| "type_name (VStr s) = ''str''"
| "type_name (VList xs) = ''list''"
| "type_name (VDict d) = ''dict''"

text \<open>\<^verbatim>\<open>k in v\<close> for a string \<^verbatim>\<open>k\<close>.\<close>

fun py_contains :: "string \<Rightarrow> pyval \<Rightarrow> exn + bool" where
  "py_contains k (VDict d) = Inr (has_key d k)"
| "py_contains k (VList xs) = Inr (VStr k \<in> set xs)"
| "py_contains k (VStr t) = Inr (substring k t)"
| "py_contains k v =
     Inl (TypeError (''argument of type '' @ quoted (type_name v) @ '' is not iterable''))"

text \<open>\<^verbatim>\<open>v[k]\<close> for a string \<^verbatim>\<open>k\<close>.\<close>

fun py_getitem :: "pyval \<Rightarrow> string \<Rightarrow> exn + pyval" where
  "py_getitem (VDict d) k = (case map_of d k of Some x \<Rightarrow> Inr x | None \<Rightarrow> Inl (KeyError (quoted k)))"
| "py_getitem (VList xs) k = Inl (TypeError ''list indices must be integers or slices, not str'')"
| "py_getitem (VStr t) k = Inl (TypeError ''string indices must be integers'')"
| "py_getitem v k = Inl (TypeError (quoted (type_name v) @ '' object is not subscriptable''))"

text \<open>\<^verbatim>\<open>v[0]\<close>.\<close>

fun py_first :: "pyval \<Rightarrow> exn + pyval" where
  "py_first (VList []) = Inl (IndexError ''list index out of range'')"
| "py_first (VList (x # xs)) = Inr x"
| "py_first (VStr []) = Inl (IndexError ''string index out of range'')"
| "py_first (VStr (c # t)) = Inr (VStr [c])"
| "py_first (VDict d) = Inl (KeyError ''0'')"
| "py_first v = Inl (TypeError (quoted (type_name v) @ '' object is not subscriptable''))"

text \<open>The items a \<^verbatim>\<open>for\<close> loop over \<^verbatim>\<open>v\<close> visits.\<close>

fun py_iter :: "pyval \<Rightarrow> exn + pyval list" where
  "py_iter (VList xs) = Inr xs"
| "py_iter (VDict d) = Inr (map (\<lambda>kv. VStr (fst kv)) d)"
| "py_iter (VStr t) = Inr (map (\<lambda>c. VStr [c]) t)"
| "py_iter v = Inl (TypeError (quoted (type_name v) @ '' object is not iterable''))"

text \<open>\<^verbatim>\<open>v.get(k, default)\<close>: only a dictionary has the method.\<close>

fun py_get :: "pyval \<Rightarrow> string \<Rightarrow> pyval \<Rightarrow> exn + pyval" where
  "py_get (VDict d) k dflt = Inr (dict_get d k dflt)"
| "py_get v k dflt =
     Inl (AttributeError (quoted (type_name v) @ '' object has no attribute '' @ quoted ''get''))"

section \<open>The job store (storage/db.py)\<close>

text \<open>
  \<open>connection\<close> is whether \<^verbatim>\<open>self.connection\<close> is set (otherwise the client is in its
  mock mode and only prints). \<open>failing\<close> stands for the driver raising inside
  \<^verbatim>\<open>cursor.execute\<close> whatever the statement (a lost connection). The table
  \<^verbatim>\<open>generation_jobs\<close> is a list of rows, a row maps column names to cells; a cell
  written through \<^verbatim>\<open>json.dumps\<close> is marked \<open>JsonText\<close>. \<open>executed\<close> lists the UPDATE
  statements that were committed, oldest first, each with the id it was issued for. The
  repository has no schema; the table is taken to have a column for every key a statement
  names.
\<close>

datatype cell = Plain pyval | JsonText pyval

type_synonym row = "(string \<times> cell) list"

record db =
  connection :: bool
  failing :: bool
  generation_jobs :: "row list"
  executed :: "(pyval \<times> pydict) list"

text \<open>
  The job dictionary that \<^verbatim>\<open>queue_generation_job\<close> builds, with its fixed keys as
  fields; the keys \<^verbatim>\<open>id\<close>, \<^verbatim>\<open>type\<close> and \<^verbatim>\<open>worker_id\<close> are the fields
  \<open>job_id\<close>, \<open>job_type\<close> and \<open>job_worker_id\<close>.
\<close>

record job =
  job_id :: string
  job_type :: string
  persona_ids :: "pyval list"
  prompt :: string
  parameters :: pydict
  status :: string
  created_at :: string
  job_worker_id :: pyval
  progress :: int
  current_step :: string
  result_url :: pyval
  error_message :: pyval

text \<open>
  \<^verbatim>\<open>create_generation_job\<close>: INSERT of the seven listed columns; any exception is
  printed and raised again.
\<close>

definition create_generation_job :: "db \<Rightarrow> job \<Rightarrow> (exn + string) \<times> db" where
  "create_generation_job d j =
     (if connection d then
        (if failing d then (Inl (OtherError ''database error''), d)
         else (Inr (job_id j),
               d\<lparr>generation_jobs := generation_jobs d @
                  [[(''id'', Plain (VStr (job_id j))),
                    (''type'', Plain (VStr (job_type j))),
                    (''persona_ids'', JsonText (VList (persona_ids j))),
                    (''prompt'', Plain (VStr (prompt j))),
                    (''parameters'', JsonText (VDict (parameters j))),
                    (''status'', Plain (VStr (status j))),
                    (''created_at'', Plain (VStr (created_at j)))]]\<rparr>))
      else (Inr (job_id j), d))"

text \<open>The SET clauses of \<^verbatim>\<open>update_generation_job\<close>, one per key of \<^verbatim>\<open>updates\<close>.\<close>

fun set_clauses :: "pydict \<Rightarrow> row \<Rightarrow> row" where
  "set_clauses [] r = r"
| "set_clauses ((k, v) # us) r =
     set_clauses us
       (AList.update k (if k \<in> {''persona_ids'', ''parameters''} then JsonText v else Plain v) r)"

definition row_has_id :: "pyval \<Rightarrow> row \<Rightarrow> bool" where
  "row_has_id jid r = (map_of r ''id'' = Some (Plain jid))"

text \<open>
  What the driver can pass as a query parameter: numbers, strings, \<^verbatim>\<open>None\<close> and lists of
  such values; it raises on a dictionary. The values of \<^verbatim>\<open>persona_ids\<close> and
  \<^verbatim>\<open>parameters\<close> go through \<^verbatim>\<open>json.dumps\<close> first, every other value and the job
  id are passed as they are. With no key at all the SET list is empty and the statement
  is not SQL.
\<close>

fun adaptable :: "pyval \<Rightarrow> bool" where
  "adaptable (VDict d) = False"
| "adaptable (VList xs) = (\<forall>x \<in> set xs. adaptable x)"
| "adaptable VNone = True"
| "adaptable (VBool b) = True"
| "adaptable (VInt n) = True"
| "adaptable (VFloat r) = True"
| "adaptable (VStr s) = True"

definition driver_accepts :: "pyval \<Rightarrow> pydict \<Rightarrow> bool" where
  "driver_accepts jid updates =
     (updates \<noteq> [] \<and> adaptable jid
      \<and> (\<forall>kv \<in> set updates.
            fst kv \<in> {''persona_ids'', ''parameters''} \<or> adaptable (snd kv)))"

text \<open>
  \<^verbatim>\<open>update_generation_job\<close>: \<^verbatim>\<open>UPDATE generation_jobs SET ... WHERE id = %s\<close>, with no
  other condition; returns \<^verbatim>\<open>True\<close>, or \<^verbatim>\<open>False\<close> when an exception was caught, in
  which case nothing is committed.
\<close>

definition update_generation_job :: "db \<Rightarrow> pyval \<Rightarrow> pydict \<Rightarrow> bool \<times> db" where
  "update_generation_job d jid updates =
     (if connection d then
        (if failing d \<or> \<not> driver_accepts jid updates then (False, d)
         else (True,
               d\<lparr>generation_jobs :=
                    map (\<lambda>r. if row_has_id jid r then set_clauses updates r else r)
                      (generation_jobs d),
                  executed := executed d @ [(jid, updates)]\<rparr>))
      else (True, d))"

text \<open>The status column of the first row with the given id, as a SELECT would show it.\<close>

definition stored_status :: "db \<Rightarrow> string \<Rightarrow> cell option" where
  "stored_status d jid =
     (case filter (row_has_id (VStr jid)) (generation_jobs d) of
        [] \<Rightarrow> None
      | r # _ \<Rightarrow> map_of r ''status'')"

text \<open>
  \<^verbatim>\<open>_format_job_result\<close> reads the seven columns it assumes; a JSON column is parsed
  back, an empty one becomes the empty list or dictionary.
\<close>

definition cell_plain :: "row \<Rightarrow> string \<Rightarrow> pyval" where
  "cell_plain r k = (case map_of r k of Some (Plain v) \<Rightarrow> v | Some (JsonText v) \<Rightarrow> v | None \<Rightarrow> VNone)"

definition cell_json :: "row \<Rightarrow> string \<Rightarrow> pyval \<Rightarrow> pyval" where
  "cell_json r k dflt = (case map_of r k of Some (JsonText v) \<Rightarrow> v | _ \<Rightarrow> dflt)"

definition format_job_result :: "row \<Rightarrow> pydict" where
  "format_job_result r =
     [(''id'', cell_plain r ''id''),
      (''type'', cell_plain r ''type''),
      (''persona_ids'', cell_json r ''persona_ids'' (VList [])),
      (''prompt'', cell_plain r ''prompt''),
      (''parameters'', cell_json r ''parameters'' (VDict [])),
      (''status'', cell_plain r ''status''),
      (''created_at'', cell_plain r ''created_at'')]"

definition generate_mock_job :: "string \<Rightarrow> string \<Rightarrow> pydict" where
  "generate_mock_job now jid =
     [(''id'', VStr jid),
      (''type'', VStr ''video''),
      (''persona_ids'', VList [VStr ''persona_1'']),
      (''prompt'', VStr ''Generate a sample video''),
      (''parameters'', VDict [(''quality'', VStr ''hd''), (''duration'', VInt 30)]),
      (''status'', VStr ''completed''),
      (''created_at'', VStr now)]"

text \<open>\<^verbatim>\<open>get_generation_job\<close>: the first matching row, the mock job, or \<^verbatim>\<open>None\<close>.\<close>

definition get_generation_job :: "string \<Rightarrow> db \<Rightarrow> string \<Rightarrow> pydict option" where
  "get_generation_job now d jid =
     (if connection d then
        (if failing d then None
         else (case filter (row_has_id (VStr jid)) (generation_jobs d) of
                 [] \<Rightarrow> None
               | r # _ \<Rightarrow> Some (format_job_result r)))
      else Some (generate_mock_job now jid))"

section \<open>The provider router (video_clients/unified_client.py)\<close>

text \<open>
  A provider client is given by its \<^verbatim>\<open>api_key\<close> attribute and by what its
  \<^verbatim>\<open>generate_video(script, **kwargs)\<close> does: raise, or return a result dictionary.
  \<open>providers\<close> keeps the insertion order of the Python dictionary.
\<close>

record client =
  api_key :: "string option"
  generate :: "pydict \<Rightarrow> pydict \<Rightarrow> exn + pydict"

record unified_client =
  preferred_provider :: string
  providers :: "(string \<times> client) list"
  fallback_order :: "string list"

definition in_providers :: "unified_client \<Rightarrow> string \<Rightarrow> bool" where
  "in_providers uc p = (map_of (providers uc) p \<noteq> None)"

text \<open>The loop of \<^verbatim>\<open>_select_provider\<close> over \<^verbatim>\<open>self.fallback_order\<close>.\<close>

fun auto_select :: "unified_client \<Rightarrow> string list \<Rightarrow> string option" where
  "auto_select uc [] = None"
| "auto_select uc (p # ps) =
     (case map_of (providers uc) p of
        None \<Rightarrow> auto_select uc ps
      | Some c \<Rightarrow>
          (if api_key c \<noteq> None \<and> api_key c \<noteq> Some [] then Some p
           else if p = ''sora'' then Some p
           else auto_select uc ps))"

definition select_provider :: "unified_client \<Rightarrow> string option \<Rightarrow> string option" where
  "select_provider uc requested_provider =
     (if requested_provider \<noteq> None \<and> requested_provider \<noteq> Some []
         \<and> in_providers uc (the requested_provider)
      then requested_provider
      else if preferred_provider uc \<noteq> ''auto'' \<and> in_providers uc (preferred_provider uc)
      then Some (preferred_provider uc)
      else (case auto_select uc (fallback_order uc) of
              Some p \<Rightarrow> Some p
            | None \<Rightarrow> (case providers uc of [] \<Rightarrow> None | (p, _) # _ \<Rightarrow> Some p)))"

definition get_selection_reason :: "unified_client \<Rightarrow> string \<Rightarrow> string option \<Rightarrow> string" where
  "get_selection_reason uc selected requested =
     (if requested \<noteq> None \<and> requested \<noteq> Some [] \<and> requested = Some selected
      then ''User requested '' @ selected
      else if requested \<noteq> None \<and> requested \<noteq> Some [] \<and> requested \<noteq> Some selected
      then ''User requested '' @ the requested @ '' but '' @ selected
             @ '' was selected due to availability''
      else if preferred_provider uc = selected
      then ''Preferred provider '' @ selected
      else ''Auto-selected '' @ selected @ '' based on availability'')"

definition optimize_for_provider :: "string \<Rightarrow> pydict \<Rightarrow> pydict" where
  "optimize_for_provider provider kwargs =
     (if provider = ''velo''
      then setdefault ''aspect_ratio'' (VStr ''16:9'') (setdefault ''temperature'' (VFloat (7 / 10)) kwargs)
      else if provider = ''sora''
      then setdefault ''style'' (VStr ''natural'') kwargs
      else kwargs)"

text \<open>The keyword arguments a provider's \<^verbatim>\<open>generate_video\<close> is called with.\<close>

definition provider_kwargs :: "string \<Rightarrow> pydict \<Rightarrow> pyval \<Rightarrow> pyval \<Rightarrow> pydict" where
  "provider_kwargs provider kwargs quality format =
     AList.update ''format'' format
       (AList.update ''quality'' quality (optimize_for_provider provider kwargs))"

text \<open>
  The loop of \<^verbatim>\<open>_try_fallback\<close> over the remaining providers: a provider that raises,
  or whose result has no truthy \<^verbatim>\<open>success\<close>, is passed over; what it raised or returned
  is not kept.
\<close>

fun fallback_loop ::
  "unified_client \<Rightarrow> pydict \<Rightarrow> string \<Rightarrow> pyval \<Rightarrow> pyval \<Rightarrow> pydict \<Rightarrow> string list \<Rightarrow> pydict option"
where
  "fallback_loop uc script failed_provider quality format kwargs [] = None"
| "fallback_loop uc script failed_provider quality format kwargs (p # ps) =
     (case map_of (providers uc) p of
        None \<Rightarrow> fallback_loop uc script failed_provider quality format kwargs ps
      | Some c \<Rightarrow>
          (case generate c script (provider_kwargs p kwargs quality format) of
             Inl e \<Rightarrow> fallback_loop uc script failed_provider quality format kwargs ps
           | Inr result \<Rightarrow>
               (if truthy (dict_get result ''success'' VNone)
                then Some
                  (AList.update ''provider_selection_reason''
                     (VStr (''Fallback to '' @ p @ '' after '' @ failed_provider @ '' failed''))
                  (AList.update ''selected_provider'' (VStr p)
                  (AList.update ''original_provider'' (VStr failed_provider)
                  (AList.update ''fallback_used'' (VBool True) result))))
                else fallback_loop uc script failed_provider quality format kwargs ps)))"

definition remaining_providers :: "unified_client \<Rightarrow> string \<Rightarrow> string list" where
  "remaining_providers uc failed_provider =
     filter (\<lambda>p. p \<noteq> failed_provider \<and> in_providers uc p) (fallback_order uc)"

definition try_fallback ::
  "unified_client \<Rightarrow> pydict \<Rightarrow> string \<Rightarrow> pyval \<Rightarrow> pyval \<Rightarrow> pydict \<Rightarrow> pydict"
where
  "try_fallback uc script failed_provider quality format kwargs =
     (case fallback_loop uc script failed_provider quality format kwargs
             (remaining_providers uc failed_provider) of
        Some result \<Rightarrow> result
      | None \<Rightarrow>
          [(''success'', VBool False),
           (''error'', VStr (''All providers failed. Last error from '' @ failed_provider)),
           (''attempted_providers'',
              VList (map VStr (failed_provider # remaining_providers uc failed_provider)))])"

text \<open>
  \<^verbatim>\<open>generate_video\<close>. \<open>provider = None\<close> is the automatic call. The handler passes
  \<^verbatim>\<open>**kwargs\<close> on to \<^verbatim>\<open>_try_fallback\<close>, whose parameters are \<^verbatim>\<open>script\<close>,
  \<^verbatim>\<open>failed_provider\<close>, \<^verbatim>\<open>quality\<close> and \<^verbatim>\<open>format\<close>: a keyword named
  \<^verbatim>\<open>failed_provider\<close> collides there and the \<^verbatim>\<open>TypeError\<close> leaves the function.
\<close>

definition generate_video ::
  "unified_client \<Rightarrow> pydict \<Rightarrow> string option \<Rightarrow> pyval \<Rightarrow> pyval \<Rightarrow> pydict \<Rightarrow> exn + pydict"
where
  "generate_video uc script provider quality format kwargs =
     (case select_provider uc provider of
        None \<Rightarrow>
          Inr [(''success'', VBool False),
               (''error'', VStr ''No video generation providers available''),
               (''available_providers'', VList (map (VStr \<circ> fst) (providers uc)))]
      | Some selected_provider \<Rightarrow>
          (if selected_provider = [] then
             Inr [(''success'', VBool False),
                  (''error'', VStr ''No video generation providers available''),
                  (''available_providers'', VList (map (VStr \<circ> fst) (providers uc)))]
           else
             (case (case map_of (providers uc) selected_provider of
                      None \<Rightarrow> Inl (KeyError (quoted selected_provider))
                    | Some c \<Rightarrow>
                        generate c script
                          (provider_kwargs selected_provider kwargs quality format)) of
                Inr result \<Rightarrow>
                  Inr (AList.update ''provider_selection_reason''
                         (VStr (get_selection_reason uc selected_provider provider))
                      (AList.update ''selected_provider'' (VStr selected_provider)
                      (AList.update ''unified_client_version'' (VStr ''1.0.0'') result)))
              | Inl e \<Rightarrow>
                  (if provider = None \<and> length (providers uc) > 1 then
                     (if has_key kwargs ''failed_provider''
                      then Inl (TypeError
                        (''UnifiedVideoClient._try_fallback() got multiple values for argument ''
                           @ quoted ''failed_provider''))
                      else Inr (try_fallback uc script selected_provider quality format kwargs))
                   else
                     Inr [(''success'', VBool False),
                          (''error'', VStr (''Video generation failed: '' @ exn_str e)),
                          (''provider'', VStr selected_provider)]))))"

text \<open>
  A provider fails a call when it raises or when its result has no truthy \<^verbatim>\<open>success\<close>:
  the two outcomes the fallback loop passes over.
\<close>

definition provider_fails :: "client \<Rightarrow> pydict \<Rightarrow> pydict \<Rightarrow> bool" where
  "provider_fails c script kw =
     (case generate c script kw of
        Inl e \<Rightarrow> True
      | Inr result \<Rightarrow> \<not> truthy (dict_get result ''success'' VNone))"

section \<open>The worker (scripts/worker/generate_worker.py)\<close>

text \<open>
  The Redis client is the list \<^verbatim>\<open>generation_queue\<close> (its left end first), each item the
  JSON value of the text stored, and whether its commands raise. The worker object carries
  the in-memory \<^verbatim>\<open>job_queue\<close> next to it. \<open>clock_reads\<close> counts the readings of
  \<^verbatim>\<open>datetime.utcnow()\<close> the status writes have made, so that each write gets a reading
  of its own from the clock, which is a parameter like the fresh \<^verbatim>\<open>uuid4()\<close>.
\<close>

record redis =
  redis_failing :: bool
  generation_queue :: "pyval list"

record worker =
  redis_client :: "redis option"
  db_client :: "db option"
  video_client :: "unified_client option"
  is_running :: bool
  worker_id :: string
  job_queue :: "job list"
  clock_reads :: nat

text \<open>
  What the interpreter and the installation decide: the text of the \<^verbatim>\<open>ImportError\<close>
  that \<^verbatim>\<open>from ..video_clients import UnifiedVideoClient\<close> raises (the package
  \<^verbatim>\<open>scripts\<close> has no module \<^verbatim>\<open>video_clients\<close>), the module name under which
  \<^verbatim>\<open>UnifiedVideoClient\<close> was loaded, which CPython puts in front of the function name in
  the error of a call, and \<^verbatim>\<open>str()\<close> on values that are not strings.
\<close>

record runtime =
  import_error :: string
  router_module :: string
  str_of :: "pyval \<Rightarrow> string"

definition py_str :: "runtime \<Rightarrow> pyval \<Rightarrow> string" where
  "py_str rt v = (case v of VStr s \<Rightarrow> s | _ \<Rightarrow> str_of rt v)"

text \<open>The job as the dictionary it is in the code, which is also what Redis stores.\<close>

definition job_json :: "job \<Rightarrow> pydict" where
  "job_json j =
     [(''id'', VStr (job_id j)),
      (''type'', VStr (job_type j)),
      (''persona_ids'', VList (persona_ids j)),
      (''prompt'', VStr (prompt j)),
      (''parameters'', VDict (parameters j)),
      (''status'', VStr (status j)),
      (''created_at'', VStr (created_at j)),
      (''worker_id'', job_worker_id j),
      (''progress'', VInt (progress j)),
      (''current_step'', VStr (current_step j)),
      (''result_url'', result_url j),
      (''error_message'', error_message j)]"

definition build_updates ::
  "string \<Rightarrow> string \<Rightarrow> string \<Rightarrow> int \<Rightarrow> string \<Rightarrow> pyval \<Rightarrow> pyval \<Rightarrow> pyval \<Rightarrow> pydict"
where
  "build_updates now wid st pr step res_url res_data err_msg =
     (let updates = [(''status'', VStr st),
                     (''progress'', VInt pr),
                     (''current_step'', VStr step),
                     (''updated_at'', VStr now),
                     (''worker_id'', VStr wid)];
          updates = (if truthy res_url then AList.update ''result_url'' res_url updates else updates);
          updates = (if truthy res_data then AList.update ''result_data'' res_data updates else updates);
          updates = (if truthy err_msg then AList.update ''error_message'' err_msg updates else updates)
      in updates)"

text \<open>
  \<^verbatim>\<open>_update_job_status\<close>: the store's answer is not looked at, and nothing is raised.
  The job id is whatever the job holds under \<^verbatim>\<open>id\<close>.
\<close>

definition update_job_status ::
  "(nat \<Rightarrow> string) \<Rightarrow> worker \<Rightarrow> pyval \<Rightarrow> string \<Rightarrow> int \<Rightarrow> string \<Rightarrow> pyval \<Rightarrow> pyval \<Rightarrow> pyval \<Rightarrow> worker"
where
  "update_job_status clock w jid st pr step res_url res_data err_msg =
     (let updates = build_updates (clock (clock_reads w)) (worker_id w) st pr step
                      res_url res_data err_msg;
          w1 = w\<lparr>clock_reads := Suc (clock_reads w)\<rparr>
      in case db_client w of
           Some d \<Rightarrow> w1\<lparr>db_client := Some (snd (update_generation_job d jid updates))\<rparr>
         | None \<Rightarrow> w1)"

text \<open>
  \<^verbatim>\<open>_add_to_queue\<close>. The result says whether an exception leaves the function: the
  handler catches everything and appends to the in-memory queue, so it never does.
\<close>

definition add_to_queue :: "worker \<Rightarrow> job \<Rightarrow> (exn + unit) \<times> worker" where
  "add_to_queue w job_data =
     (case redis_client w of
        Some r \<Rightarrow>
          (if redis_failing r
           then (Inr (), w\<lparr>job_queue := job_queue w @ [job_data]\<rparr>)
           else (Inr (), w\<lparr>redis_client :=
                            Some (r\<lparr>generation_queue :=
                                       VDict (job_json job_data) # generation_queue r\<rparr>)\<rparr>))
      | None \<Rightarrow> (Inr (), w\<lparr>job_queue := job_queue w @ [job_data]\<rparr>))"

definition new_job ::
  "string \<Rightarrow> string \<Rightarrow> string \<Rightarrow> pyval list \<Rightarrow> string \<Rightarrow> pydict \<Rightarrow> job"
where
  "new_job now new_id jtype pids prm params =
     \<lparr>job_id = new_id, job_type = jtype, persona_ids = pids, prompt = prm,
      parameters = params, status = ''queued'', created_at = now,
      job_worker_id = VNone, progress = 0, current_step = ''queued'',
      result_url = VNone, error_message = VNone\<rparr>"

text \<open>
  \<^verbatim>\<open>queue_generation_job\<close>: an exception of \<^verbatim>\<open>create_generation_job\<close> is printed and
  dropped; the job goes to the queue and its id is returned.
\<close>

definition queue_generation_job ::
  "string \<Rightarrow> string \<Rightarrow> worker \<Rightarrow> string \<Rightarrow> pyval list \<Rightarrow> string \<Rightarrow> pydict
     \<Rightarrow> (exn + string) \<times> worker"
where
  "queue_generation_job now new_id w jtype pids prm params =
     (let job_data = new_job now new_id jtype pids prm params;
          w1 = (case db_client w of
                  Some d \<Rightarrow> w\<lparr>db_client := Some (snd (create_generation_job d job_data))\<rparr>
                | None \<Rightarrow> w)
      in case add_to_queue w1 job_data of
           (Inl e, w2) \<Rightarrow> (Inl e, w2)
         | (Inr _, w2) \<Rightarrow> (Inr new_id, w2))"

text \<open>
  \<^verbatim>\<open>_get_from_redis_queue\<close> takes the item at the right end and parses it.
  \<^verbatim>\<open>_get_next_job\<close> returns it when it is truthy; otherwise (nothing there, Redis
  raising, or an item such as \<^verbatim>\<open>{}\<close>) it takes the head of the in-memory queue.
\<close>

definition get_from_redis_queue :: "worker \<Rightarrow> pyval option \<times> worker" where
  "get_from_redis_queue w =
     (case redis_client w of
        Some r \<Rightarrow>
          (if redis_failing r then (None, w)
           else (case generation_queue r of
                   [] \<Rightarrow> (None, w)
                 | _ # _ \<Rightarrow>
                     (Some (last (generation_queue r)),
                      w\<lparr>redis_client :=
                          Some (r\<lparr>generation_queue := butlast (generation_queue r)\<rparr>)\<rparr>)))
      | None \<Rightarrow> (None, w))"

definition get_next_job :: "worker \<Rightarrow> pyval option \<times> worker" where
  "get_next_job w =
     (let (job_data, w1) = (if redis_client w \<noteq> None then get_from_redis_queue w else (None, w))
      in if (case job_data of Some v \<Rightarrow> truthy v | None \<Rightarrow> False) then (job_data, w1)
         else
           (case job_queue w1 of
              j # js \<Rightarrow> (Some (VDict (job_json j)), w1\<lparr>job_queue := js\<rparr>)
            | [] \<Rightarrow> (None, w1)))"

text \<open>
  \<^verbatim>\<open>job["parameters"]\<close> as the dictionary \<^verbatim>\<open>.get\<close> is called on, and the script
  \<^verbatim>\<open>_process_video_job\<close> builds from the job; the reads are made in the order of the
  dictionary display, and the first that fails raises.
\<close>

definition job_parameters :: "pyval \<Rightarrow> exn + pydict" where
  "job_parameters job =
     (case py_getitem job ''parameters'' of
        Inl e \<Rightarrow> Inl e
      | Inr (VDict ps) \<Rightarrow> Inr ps
      | Inr v \<Rightarrow>
          Inl (AttributeError (quoted (type_name v) @ '' object has no attribute ''
                                 @ quoted ''get'')))"

definition build_script :: "pyval \<Rightarrow> exn + pydict" where
  "build_script job =
     (case py_getitem job ''prompt'' of
        Inl e \<Rightarrow> Inl e
      | Inr prompt_value \<Rightarrow>
          (case job_parameters job of
             Inl e \<Rightarrow> Inl e
           | Inr ps \<Rightarrow>
               (case py_getitem job ''persona_ids'' of
                  Inl e \<Rightarrow> Inl e
                | Inr pids \<Rightarrow>
                    Inr [(''prompt'', prompt_value),
                         (''scenes'',
                            VList [VDict [(''description'', prompt_value),
                                          (''duration'', dict_get ps ''duration'' (VInt 30))]]),
                         (''duration'', dict_get ps ''duration'' (VInt 30)),
                         (''persona_ids'', pids)])))"

text \<open>
  The call \<^verbatim>\<open>generate_video(script=..., provider=..., quality=..., **job["parameters"])\<close>:
  a key of the parameters that repeats one of the three keywords written in the call is a
  \<^verbatim>\<open>TypeError\<close> at the call, reported for the first such key of the dictionary. When
  there is none, \<^verbatim>\<open>provider\<close> is \<^verbatim>\<open>None\<close>, \<^verbatim>\<open>quality\<close> is its default, a key
  \<^verbatim>\<open>format\<close> binds the parameter of that name and the other keys are the \<^verbatim>\<open>**kwargs\<close>.
\<close>

definition repeated_keyword :: "pydict \<Rightarrow> string option" where
  "repeated_keyword params =
     (case filter (\<lambda>k. k \<in> {''script'', ''provider'', ''quality''}) (map fst params) of
        [] \<Rightarrow> (if has_key params ''self'' then Some ''self'' else None)
      | k # _ \<Rightarrow> Some k)"

definition str_option :: "pyval \<Rightarrow> string option" where
  "str_option v = (case v of VStr s \<Rightarrow> Some s | _ \<Rightarrow> None)"

definition call_generate_video ::
  "runtime \<Rightarrow> unified_client \<Rightarrow> pydict \<Rightarrow> pydict \<Rightarrow> exn + pydict"
where
  "call_generate_video rt vc script params =
     (case repeated_keyword params of
        Some k \<Rightarrow>
          Inl (TypeError
                 (if k = ''self''
                  then ''UnifiedVideoClient.generate_video() got multiple values for argument ''
                         @ quoted k
                  else router_module rt
                         @ ''.UnifiedVideoClient.generate_video() got multiple values for keyword argument ''
                         @ quoted k))
      | None \<Rightarrow>
          generate_video vc script
            (str_option (dict_get params ''provider'' VNone))
            (dict_get params ''quality'' (VStr ''hd''))
            (dict_get params ''format'' (VStr ''mp4''))
            (AList.delete ''format'' params))"

text \<open>
  \<^verbatim>\<open>_process_video_job\<close>, for a job whose \<^verbatim>\<open>id\<close> was read as \<open>jid\<close>. With no
  \<^verbatim>\<open>video_client\<close> the import at its top raises. A job whose script cannot be built
  raises before the second status write.
\<close>

definition process_video_job ::
  "(nat \<Rightarrow> string) \<Rightarrow> runtime \<Rightarrow> pyval \<Rightarrow> pyval \<Rightarrow> worker \<Rightarrow> (exn + pydict) \<times> worker"
where
  "process_video_job clock rt job jid w =
     (case video_client w of
        None \<Rightarrow> (Inl (ImportError (import_error rt)), w)
      | Some vc \<Rightarrow>
          (case build_script job of
             Inl e \<Rightarrow> (Inl e, w)
           | Inr script \<Rightarrow>
               (let w2 = update_job_status clock w jid ''processing'' 30 ''Generating video''
                           VNone VNone VNone
                in case job_parameters job of
                     Inl e \<Rightarrow> (Inl e, w2)
                   | Inr ps \<Rightarrow>
                       (case call_generate_video rt vc script ps of
                          Inl e \<Rightarrow> (Inl e, w2)
                        | Inr result \<Rightarrow>
                            (Inr result,
                             update_job_status clock w2 jid ''processing'' 90 ''Finalizing''
                               VNone VNone VNone)))))"

text \<open>
  The body of the \<^verbatim>\<open>try\<close> of \<^verbatim>\<open>_process_job\<close>, for a job whose \<^verbatim>\<open>id\<close> and
  \<^verbatim>\<open>type\<close> were read as \<open>jid\<close> and \<open>jtype\<close>; its result says what was raised there.
\<close>

definition process_job_body ::
  "(nat \<Rightarrow> string) \<Rightarrow> runtime \<Rightarrow> pyval \<Rightarrow> pyval \<Rightarrow> pyval \<Rightarrow> worker \<Rightarrow> (exn + unit) \<times> worker"
where
  "process_job_body clock rt job jid jtype w =
     (let w1 = update_job_status clock w jid ''processing'' 10 ''Starting generation''
                 VNone VNone VNone
      in if jtype = VStr ''video'' then
           (case process_video_job clock rt job jid w1 of
              (Inl e, w2) \<Rightarrow> (Inl e, w2)
            | (Inr result, w2) \<Rightarrow>
                (Inr (),
                 if truthy (dict_get result ''success'' VNone)
                 then update_job_status clock w2 jid ''completed'' 100 ''Generation completed''
                        (dict_get result ''video_url'' VNone) (VDict result) VNone
                 else update_job_status clock w2 jid ''failed'' 0 ''Generation failed''
                        VNone VNone (dict_get result ''error'' (VStr ''Unknown error''))))
         else (Inl (ValueError (''Unknown job type: '' @ py_str rt jtype)), w1))"

text \<open>
  \<^verbatim>\<open>_process_job\<close> on what was taken from the queue. The two reads before the
  \<^verbatim>\<open>try\<close> raise out of the function; whatever the body of the \<^verbatim>\<open>try\<close> raises is
  turned by the handler into a \<^verbatim>\<open>failed\<close> write with progress 0. The result says what
  leaves the function.
\<close>

definition process_job_run ::
  "(nat \<Rightarrow> string) \<Rightarrow> runtime \<Rightarrow> pyval \<Rightarrow> worker \<Rightarrow> (exn + unit) \<times> worker"
where
  "process_job_run clock rt job w =
     (case py_getitem job ''id'' of
        Inl e \<Rightarrow> (Inl e, w)
      | Inr jid \<Rightarrow>
          (case py_getitem job ''type'' of
             Inl e \<Rightarrow> (Inl e, w)
           | Inr jtype \<Rightarrow>
               (case process_job_body clock rt job jid jtype w of
                  (Inr u, w1) \<Rightarrow> (Inr (), w1)
                | (Inl e, w1) \<Rightarrow>
                    (Inr (),
                     update_job_status clock w1 jid ''failed'' 0 ''Processing error''
                       VNone VNone (VStr (exn_str e))))))"

text \<open>The state \<^verbatim>\<open>_process_job\<close> leaves for a job the worker has queued itself.\<close>

definition process_job :: "(nat \<Rightarrow> string) \<Rightarrow> runtime \<Rightarrow> job \<Rightarrow> worker \<Rightarrow> worker" where
  "process_job clock rt j w = snd (process_job_run clock rt (VDict (job_json j)) w)"

text \<open>
  One turn of the \<^verbatim>\<open>while self.is_running\<close> loop of \<^verbatim>\<open>start_worker\<close>: the body of
  its \<^verbatim>\<open>try\<close>, whose result says what was raised there, and the turn with the handler,
  which prints and waits. The loop is given for a number of turns.
\<close>

definition worker_turn_body ::
  "(nat \<Rightarrow> string) \<Rightarrow> runtime \<Rightarrow> worker \<Rightarrow> (exn + unit) \<times> worker"
where
  "worker_turn_body clock rt w =
     (case get_next_job w of
        (Some job, w1) \<Rightarrow>
          (if truthy job then process_job_run clock rt job w1 else (Inr (), w1))
      | (None, w1) \<Rightarrow> (Inr (), w1))"

definition worker_turn :: "(nat \<Rightarrow> string) \<Rightarrow> runtime \<Rightarrow> worker \<Rightarrow> worker" where
  "worker_turn clock rt w =
     (case worker_turn_body clock rt w of
        (Inr u, w1) \<Rightarrow> w1
      | (Inl e, w1) \<Rightarrow> w1)"

fun worker_loop :: "nat \<Rightarrow> (nat \<Rightarrow> string) \<Rightarrow> runtime \<Rightarrow> worker \<Rightarrow> worker" where
  "worker_loop 0 clock rt w = w"
| "worker_loop (Suc n) clock rt w =
     (if is_running w then worker_loop n clock rt (worker_turn clock rt w) else w)"

definition start_worker :: "nat \<Rightarrow> (nat \<Rightarrow> string) \<Rightarrow> runtime \<Rightarrow> worker \<Rightarrow> worker" where
  "start_worker n clock rt w = worker_loop n clock rt (w\<lparr>is_running := True\<rparr>)"

text \<open>\<^verbatim>\<open>get_job_status\<close> and \<^verbatim>\<open>cancel_job\<close>.\<close>

definition get_job_status :: "string \<Rightarrow> worker \<Rightarrow> string \<Rightarrow> pydict option" where
  "get_job_status now w jid =
     (case db_client w of
        Some d \<Rightarrow> get_generation_job now d jid
      | None \<Rightarrow>
          Some [(''id'', VStr jid),
                (''status'', VStr ''completed''),
                (''progress'', VInt 100),
                (''current_step'', VStr ''completed''),
                (''result_url'', VStr (''https://mock-results.com/'' @ jid @ ''.mp4''))])"

definition cancel_job :: "string \<Rightarrow> worker \<Rightarrow> string \<Rightarrow> bool \<times> worker" where
  "cancel_job now w jid =
     (case db_client w of
        Some d \<Rightarrow>
          (True,
           w\<lparr>db_client :=
               Some (snd (update_generation_job d (VStr jid)
                           [(''status'', VStr ''cancelled''),
                            (''current_step'', VStr ''cancelled''),
                            (''updated_at'', VStr now)]))\<rparr>)
      | None \<Rightarrow> (True, w))"

text \<open>
  Whether the store holds a row for a job, and an UPDATE statement as the id, the status
  and the progress it wrote.
\<close>

definition in_store :: "db \<Rightarrow> string \<Rightarrow> bool" where
  "in_store d jid = (filter (row_has_id (VStr jid)) (generation_jobs d) \<noteq> [])"

definition summary :: "pyval \<times> pydict \<Rightarrow> pyval \<times> pyval \<times> pyval" where
  "summary = (\<lambda>(jid, u). (jid, dict_get u ''status'' VNone, dict_get u ''progress'' VNone))"

text \<open>
  The store as seen from the worker: the statements committed so far (none without a
  \<^verbatim>\<open>db_client\<close>), whether the worker has a connected store whose driver is not failing,
  the statements committed between two states of the worker with the progress numbers
  they wrote, the status a SELECT shows for a job, and whether the store holds its row.
\<close>

definition committed :: "worker \<Rightarrow> (pyval \<times> pydict) list" where
  "committed w = (case db_client w of Some d \<Rightarrow> executed d | None \<Rightarrow> [])"

definition store_ready :: "worker \<Rightarrow> bool" where
  "store_ready w = (case db_client w of Some d \<Rightarrow> connection d \<and> \<not> failing d | None \<Rightarrow> False)"

definition writes_since :: "worker \<Rightarrow> worker \<Rightarrow> (pyval \<times> pyval \<times> pyval) list" where
  "writes_since w w' = map summary (drop (length (committed w)) (committed w'))"

definition progress_written :: "worker \<Rightarrow> worker \<Rightarrow> int list" where
  "progress_written w w' =
     map (\<lambda>(_, _, p). case p of VInt n \<Rightarrow> n | _ \<Rightarrow> 0) (writes_since w w')"

definition shown_status :: "worker \<Rightarrow> string \<Rightarrow> cell option" where
  "shown_status w jid = (case db_client w of Some d \<Rightarrow> stored_status d jid | None \<Rightarrow> None)"

definition holds_row :: "worker \<Rightarrow> string \<Rightarrow> bool" where
  "holds_row w jid = (case db_client w of Some d \<Rightarrow> in_store d jid | None \<Rightarrow> False)"

text \<open>Whether a job sits on one of the two queues.\<close>

definition on_queue :: "worker \<Rightarrow> job \<Rightarrow> bool" where
  "on_queue w j =
     (j \<in> set (job_queue w)
      \<or> (case redis_client w of
           Some r \<Rightarrow> VDict (job_json j) \<in> set (generation_queue r)
         | None \<Rightarrow> False))"

section \<open>Decoding a provider response (video_clients/velo_client.py)\<close>

text \<open>
  The loops of \<^verbatim>\<open>_extract_video_url_from_response\<close>. Each gives the value a
  \<^verbatim>\<open>return\<close> inside the loop returns, \<open>None\<close> when the loop runs to its end, or the
  exception raised on the way.
\<close>

fun scan_predictions :: "pyval list \<Rightarrow> exn + pyval option" where
  "scan_predictions [] = Inr None"
| "scan_predictions (prediction # rest) =
     (case py_contains ''videoUrl'' prediction of
        Inl e \<Rightarrow> Inl e
      | Inr True \<Rightarrow> map_sum id Some (py_getitem prediction ''videoUrl'')
      | Inr False \<Rightarrow>
          (case py_contains ''video_uri'' prediction of
             Inl e \<Rightarrow> Inl e
           | Inr True \<Rightarrow> map_sum id Some (py_getitem prediction ''video_uri'')
           | Inr False \<Rightarrow> scan_predictions rest))"

fun scan_parts :: "pyval list \<Rightarrow> exn + pyval option" where
  "scan_parts [] = Inr None"
| "scan_parts (part # rest) =
     (case py_contains ''videoUrl'' part of
        Inl e \<Rightarrow> Inl e
      | Inr True \<Rightarrow> map_sum id Some (py_getitem part ''videoUrl'')
      | Inr False \<Rightarrow>
          (case py_contains ''fileData'' part of
             Inl e \<Rightarrow> Inl e
           | Inr True \<Rightarrow>
               (case py_getitem part ''fileData'' of
                  Inl e \<Rightarrow> Inl e
                | Inr file_data \<Rightarrow> map_sum id Some (py_get file_data ''fileUri'' (VStr [])))
           | Inr False \<Rightarrow> scan_parts rest))"

fun scan_candidates :: "pyval list \<Rightarrow> exn + pyval option" where
  "scan_candidates [] = Inr None"
| "scan_candidates (candidate # rest) =
     (case py_contains ''content'' candidate of
        Inl e \<Rightarrow> Inl e
      | Inr False \<Rightarrow> scan_candidates rest
      | Inr True \<Rightarrow>
          (case py_getitem candidate ''content'' of
             Inl e \<Rightarrow> Inl e
           | Inr content \<Rightarrow>
               (case py_get content ''parts'' (VList []) of
                  Inl e \<Rightarrow> Inl e
                | Inr parts \<Rightarrow>
                    (case py_iter parts of
                       Inl e \<Rightarrow> Inl e
                     | Inr ps \<Rightarrow>
                         (case scan_parts ps of
                            Inl e \<Rightarrow> Inl e
                          | Inr (Some v) \<Rightarrow> Inr (Some v)
                          | Inr None \<Rightarrow> scan_candidates rest)))))"

text \<open>The body of the \<^verbatim>\<open>try\<close>, up to the point where no video has been found.\<close>

definition extract_body :: "pydict \<Rightarrow> exn + pyval option" where
  "extract_body response =
     (case (if has_key response ''predictions''
            then (case py_iter (dict_get response ''predictions'' VNone) of
                    Inl e \<Rightarrow> Inl e
                  | Inr ps \<Rightarrow> scan_predictions ps)
            else Inr None) of
        Inl e \<Rightarrow> Inl e
      | Inr (Some v) \<Rightarrow> Inr (Some v)
      | Inr None \<Rightarrow>
          (case (if has_key response ''candidates''
                 then (case py_iter (dict_get response ''candidates'' VNone) of
                         Inl e \<Rightarrow> Inl e
                       | Inr cs \<Rightarrow> scan_candidates cs)
                 else Inr None) of
             Inl e \<Rightarrow> Inl e
           | Inr (Some v) \<Rightarrow> Inr (Some v)
           | Inr None \<Rightarrow>
               (if has_key response ''videoUrl''
                then Inr (Some (dict_get response ''videoUrl'' VNone))
                else if has_key response ''video_uri''
                then Inr (Some (dict_get response ''video_uri'' VNone))
                else Inr None)))"

definition placeholder_url :: "string \<Rightarrow> pyval" where
  "placeholder_url video_id =
     VStr (''https://storage.googleapis.com/velo-generated-videos/'' @ video_id @ ''.mp4'')"

text \<open>
  \<^verbatim>\<open>_extract_video_url_from_response\<close>. \<open>video_id\<close> is the \<^verbatim>\<open>uuid4().hex[:12]\<close> the
  call draws: when no video was found, and in the handler when the search raised.
\<close>

definition extract_video_url_from_response :: "string \<Rightarrow> pydict \<Rightarrow> pyval" where
  "extract_video_url_from_response video_id response =
     (case extract_body response of
        Inr (Some v) \<Rightarrow> v
      | Inr None \<Rightarrow> placeholder_url video_id
      | Inl e \<Rightarrow> placeholder_url video_id)"

text \<open>
  \<^verbatim>\<open>_save_video_from_response\<close>. \<open>b64decode\<close> is \<^verbatim>\<open>base64.b64decode\<close>, \<open>write_ok\<close>
  whether the file can be written, \<open>timestamp\<close> the formatted clock reading. The result
  is the file written, as its name (which is what the function returns) and its bytes, or
  \<open>None\<close> for the function's \<^verbatim>\<open>None\<close>.
\<close>

definition save_video_body ::
  "(pyval \<Rightarrow> exn + string) \<Rightarrow> string \<Rightarrow> bool \<Rightarrow> pydict \<Rightarrow> exn + (string \<times> string) option"
where
  "save_video_body b64decode timestamp write_ok response =
     (let predictions = dict_get response ''predictions'' (VList [])
      in if \<not> truthy predictions then Inr None
         else
           (case py_first predictions of
              Inl e \<Rightarrow> Inl e
            | Inr prediction \<Rightarrow>
                (case py_get prediction ''generatedSamples'' (VList []) of
                   Inl e \<Rightarrow> Inl e
                 | Inr generated_samples \<Rightarrow>
                     (if \<not> truthy generated_samples then Inr None
                      else
                        (case py_first generated_samples of
                           Inl e \<Rightarrow> Inl e
                         | Inr sample \<Rightarrow>
                             (case py_get sample ''video'' (VDict []) of
                                Inl e \<Rightarrow> Inl e
                              | Inr video_data \<Rightarrow>
                                  (case py_get video_data ''bytesBase64Encoded'' VNone of
                                     Inl e \<Rightarrow> Inl e
                                   | Inr base64_video \<Rightarrow>
                                       (if \<not> truthy base64_video then Inr None
                                        else
                                          (case b64decode base64_video of
                                             Inl e \<Rightarrow> Inl e
                                           | Inr video_bytes \<Rightarrow>
                                               (if write_ok
                                                then Inr (Some (''veo_video_'' @ timestamp @ ''.mp4'',
                                                                video_bytes))
                                                else Inl (OtherError ''cannot write file'')))))))))))"

definition save_video_from_response ::
  "(pyval \<Rightarrow> exn + string) \<Rightarrow> string \<Rightarrow> bool \<Rightarrow> pydict \<Rightarrow> (string \<times> string) option"
where
  "save_video_from_response b64decode timestamp write_ok response =
     (case save_video_body b64decode timestamp write_ok response of
        Inr r \<Rightarrow> r
      | Inl e \<Rightarrow> None)"

text \<open>
  What \<^verbatim>\<open>_call_velo_api\<close> returns once the HTTP status was 200, 201 or 202 and the body
  was parsed into \<open>result\<close>. \<open>video_id\<close> is the \<^verbatim>\<open>uuid4().hex[:8]\<close> of the result,
  \<open>placeholder_id\<close> the one \<^verbatim>\<open>_extract_video_url_from_response\<close> draws,
  \<open>generated_at\<close> the reading of \<^verbatim>\<open>time.time()\<close>.
\<close>

definition call_velo_api_result ::
  "string \<Rightarrow> string \<Rightarrow> string \<Rightarrow> pyval \<Rightarrow> (pyval \<Rightarrow> exn + string) \<Rightarrow> string \<Rightarrow> bool
     \<Rightarrow> pydict \<Rightarrow> string \<Rightarrow> pydict \<Rightarrow> pydict"
where
  "call_velo_api_result model_name video_id placeholder_id generated_at b64decode timestamp
       write_ok script prompt_text result =
     (case (if has_key result ''predictions''
               \<and> (case dict_get result ''predictions'' VNone of VList xs \<Rightarrow> True | _ \<Rightarrow> False)
            then save_video_from_response b64decode timestamp write_ok result
            else None) of
        Some (video_path, video_bytes) \<Rightarrow>
          [(''success'', VBool True),
           (''video_id'', VStr (''velo_'' @ video_id)),
           (''video_path'', VStr video_path),
           (''provider'', VStr ''velo''),
           (''model'', VStr model_name),
           (''duration'', dict_get script ''duration'' (VInt 8)),
           (''prompt'', VStr prompt_text),
           (''generated_at'', generated_at)]
      | None \<Rightarrow>
          (if has_key result ''name'' then
             [(''success'', VBool True),
              (''status'', VStr ''processing''),
              (''operation_id'', dict_get result ''name'' VNone),
              (''provider'', VStr ''velo''),
              (''model'', VStr model_name),
              (''duration'', dict_get script ''duration'' (VInt 8)),
              (''prompt'', VStr prompt_text),
              (''message'',
                 VStr ''Video generation in progress. Use operation_id to check status.''),
              (''generated_at'', generated_at)]
           else
             [(''success'', VBool True),
              (''video_id'', VStr (''velo_'' @ video_id)),
              (''video_url'', extract_video_url_from_response placeholder_id result),
              (''provider'', VStr ''velo''),
              (''model'', VStr model_name),
              (''duration'', dict_get script ''duration'' (VInt 8)),
              (''prompt'', VStr prompt_text),
              (''api_response'', VDict result),
              (''generated_at'', generated_at)]))"

section \<open>Polling an operation (scripts/check_veo_operation.py)\<close>











section \<open>Example states\<close>

text \<open>A connected store holding one job, and a worker without Redis.\<close>

definition one_job_store :: "string \<Rightarrow> string \<Rightarrow> db" where
  "one_job_store jid st =
     \<lparr>connection = True, failing = False,
      generation_jobs = [[(''id'', Plain (VStr jid)), (''type'', Plain (VStr ''video'')),
                          (''status'', Plain (VStr st))]],
      executed = []\<rparr>"

definition plain_worker :: "db option \<Rightarrow> worker" where
  "plain_worker d =
     \<lparr>redis_client = None, db_client = d, video_client = None, is_running = True,
      worker_id = ''worker-1'', job_queue = [], clock_reads = 0\<rparr>"

text \<open>
  A runtime: the text of the import error, the module name of the router, and a
  \<^verbatim>\<open>str()\<close> that is right on \<^verbatim>\<open>None\<close>.
\<close>

definition example_runtime :: runtime where
  "example_runtime =
     \<lparr>import_error = ''No module named '' @ quoted ''scripts.video_clients'',
      router_module = ''video_clients.unified_client'',
      str_of = (\<lambda>v. ''None'')\<rparr>"


text \<open>A provider with a fixed outcome, a router over given providers, a job, and workers.\<close>

definition fixed_provider :: "string option \<Rightarrow> exn + pydict \<Rightarrow> client" where
  "fixed_provider k outcome = \<lparr>api_key = k, generate = (\<lambda>script kwargs. outcome)\<rparr>"

definition router :: "(string \<times> client) list \<Rightarrow> unified_client" where
  "router ps = \<lparr>preferred_provider = ''auto'', providers = ps, fallback_order = [''velo'', ''sora'']\<rparr>"

definition example_job :: "string \<Rightarrow> string \<Rightarrow> pydict \<Rightarrow> job" where
  "example_job jid jtype params = new_job ''t0'' jid jtype [] ''a calm lake at sunrise'' params"

definition video_worker :: "db \<Rightarrow> unified_client \<Rightarrow> job list \<Rightarrow> worker" where
  "video_worker d uc q = (plain_worker (Some d))\<lparr>video_client := Some uc, job_queue := q\<rparr>"

definition redis_worker :: "redis \<Rightarrow> worker" where
  "redis_worker r = (plain_worker None)\<lparr>redis_client := Some r\<rparr>"


definition no_b64decode :: "pyval \<Rightarrow> exn + string" where
  "no_b64decode v = Inl (OtherError ''Incorrect padding'')"

section \<open>Properties\<close>

subsection \<open>The router\<close>

lemma fallback_loop_all_fail:
  assumes "\<forall>p \<in> set ps. \<forall>c. map_of (providers uc) p = Some c \<longrightarrow>
             provider_fails c script (provider_kwargs p kwargs quality format)"
  shows "fallback_loop uc script failed quality format kwargs ps = None"
  using assms
proof (induction ps)
  case Nil
  then show ?case by simp
next
  case (Cons p ps)
  then show ?case
    by (auto simp: provider_fails_def split: option.splits sum.splits)
qed

text \<open>
  C4, as the code has it. In an automatic call the router returns what the selected
  provider returns, with its own three keys added, whether or not that result reports
  success. When the selected provider raises and it is the only registered provider, the
  failure carries that provider's error text. When it raises, several providers are
  registered, no keyword argument is named \<^verbatim>\<open>failed_provider\<close> and every remaining
  provider raises or reports no success, the router returns one fixed failure: the names
  of the attempted providers and a message naming the provider that failed first, with
  no error of any provider in it.
\<close>

theorem all_providers_failed_result:
  assumes sel: "select_provider uc None = Some sel" "sel \<noteq> []"
              "map_of (providers uc) sel = Some c"
  shows "(\<forall>result.
            generate c script (provider_kwargs sel kwargs quality format) = Inr result \<longrightarrow>
            generate_video uc script None quality format kwargs =
              Inr (AList.update ''provider_selection_reason''
                     (VStr (get_selection_reason uc sel None))
                  (AList.update ''selected_provider'' (VStr sel)
                  (AList.update ''unified_client_version'' (VStr ''1.0.0'') result))))
       \<and> (\<forall>e. generate c script (provider_kwargs sel kwargs quality format) = Inl e
              \<and> length (providers uc) \<le> 1 \<longrightarrow>
            generate_video uc script None quality format kwargs =
              Inr [(''success'', VBool False),
                   (''error'', VStr (''Video generation failed: '' @ exn_str e)),
                   (''provider'', VStr sel)])
       \<and> (\<forall>e. generate c script (provider_kwargs sel kwargs quality format) = Inl e
              \<and> length (providers uc) > 1
              \<and> \<not> has_key kwargs ''failed_provider''
              \<and> (\<forall>p \<in> set (remaining_providers uc sel). \<forall>c'.
                     map_of (providers uc) p = Some c' \<longrightarrow>
                     provider_fails c' script (provider_kwargs p kwargs quality format)) \<longrightarrow>
            generate_video uc script None quality format kwargs =
              Inr [(''success'', VBool False),
                   (''error'', VStr (''All providers failed. Last error from '' @ sel)),
                   (''attempted_providers'',
                      VList (map VStr (sel # remaining_providers uc sel)))])"
proof (intro conjI allI impI)
  fix result
  assume "generate c script (provider_kwargs sel kwargs quality format) = Inr result"
  then show "generate_video uc script None quality format kwargs =
              Inr (AList.update ''provider_selection_reason''
                     (VStr (get_selection_reason uc sel None))
                  (AList.update ''selected_provider'' (VStr sel)
                  (AList.update ''unified_client_version'' (VStr ''1.0.0'') result)))"
    using sel by (simp add: generate_video_def)
next
  fix e
  assume "generate c script (provider_kwargs sel kwargs quality format) = Inl e
              \<and> length (providers uc) \<le> 1"
  then show "generate_video uc script None quality format kwargs =
              Inr [(''success'', VBool False),
                   (''error'', VStr (''Video generation failed: '' @ exn_str e)),
                   (''provider'', VStr sel)]"
    using sel by (simp add: generate_video_def)
next
  fix e
  assume h: "generate c script (provider_kwargs sel kwargs quality format) = Inl e
              \<and> length (providers uc) > 1
              \<and> \<not> has_key kwargs ''failed_provider''
              \<and> (\<forall>p \<in> set (remaining_providers uc sel). \<forall>c'.
                     map_of (providers uc) p = Some c' \<longrightarrow>
                     provider_fails c' script (provider_kwargs p kwargs quality format))"
  then have loop:
    "fallback_loop uc script sel quality format kwargs (remaining_providers uc sel) = None"
    by (intro fallback_loop_all_fail) blast
  have fb: "try_fallback uc script sel quality format kwargs =
           [(''success'', VBool False),
            (''error'', VStr (''All providers failed. Last error from '' @ sel)),
            (''attempted_providers'', VList (map VStr (sel # remaining_providers uc sel)))]"
    by (simp add: try_fallback_def loop)
  show "generate_video uc script None quality format kwargs =
              Inr [(''success'', VBool False),
                   (''error'', VStr (''All providers failed. Last error from '' @ sel)),
                   (''attempted_providers'',
                      VList (map VStr (sel # remaining_providers uc sel)))]"
    using sel h by (simp add: generate_video_def fb)
qed

text \<open>
  C3, as the code has it. A requested provider that is registered is selected. One that
  is not registered is replaced by the automatic choice, and generation runs on that
  provider, the result saying so in its selection reason. When the provider selected for
  an explicit request raises, no fallback is tried and a failure dictionary is returned.
\<close>

theorem explicit_provider_selection:
  assumes "p \<noteq> []"
  shows "(in_providers uc p \<longrightarrow> select_provider uc (Some p) = Some p)
       \<and> (\<not> in_providers uc p \<longrightarrow> select_provider uc (Some p) = select_provider uc None)
       \<and> (\<forall>sel c res.
             select_provider uc (Some p) = Some sel \<and> sel \<noteq> []
             \<and> map_of (providers uc) sel = Some c
             \<and> generate c script (provider_kwargs sel kwargs quality format) = Inr res
             \<longrightarrow> generate_video uc script (Some p) quality format kwargs =
                   Inr (AList.update ''provider_selection_reason''
                          (VStr (if p = sel then ''User requested '' @ sel
                                 else ''User requested '' @ p @ '' but '' @ sel
                                        @ '' was selected due to availability''))
                       (AList.update ''selected_provider'' (VStr sel)
                       (AList.update ''unified_client_version'' (VStr ''1.0.0'') res))))
       \<and> (\<forall>sel c e.
             select_provider uc (Some p) = Some sel \<and> sel \<noteq> []
             \<and> map_of (providers uc) sel = Some c
             \<and> generate c script (provider_kwargs sel kwargs quality format) = Inl e
             \<longrightarrow> generate_video uc script (Some p) quality format kwargs =
                   Inr [(''success'', VBool False),
                        (''error'', VStr (''Video generation failed: '' @ exn_str e)),
                        (''provider'', VStr sel)])"
proof (intro conjI allI impI)
  assume "in_providers uc p"
  with assms show "select_provider uc (Some p) = Some p"
    by (simp add: select_provider_def)
next
  assume "\<not> in_providers uc p"
  then show "select_provider uc (Some p) = select_provider uc None"
    by (simp add: select_provider_def)
next
  fix sel c res
  assume h: "select_provider uc (Some p) = Some sel \<and> sel \<noteq> []
             \<and> map_of (providers uc) sel = Some c
             \<and> generate c script (provider_kwargs sel kwargs quality format) = Inr res"
  have "get_selection_reason uc sel (Some p) =
          (if p = sel then ''User requested '' @ sel
           else ''User requested '' @ p @ '' but '' @ sel @ '' was selected due to availability'')"
    using assms by (simp add: get_selection_reason_def)
  with h show "generate_video uc script (Some p) quality format kwargs =
                   Inr (AList.update ''provider_selection_reason''
                          (VStr (if p = sel then ''User requested '' @ sel
                                 else ''User requested '' @ p @ '' but '' @ sel
                                        @ '' was selected due to availability''))
                       (AList.update ''selected_provider'' (VStr sel)
                       (AList.update ''unified_client_version'' (VStr ''1.0.0'') res)))"
    by (simp add: generate_video_def)
next
  fix sel c e
  assume h: "select_provider uc (Some p) = Some sel \<and> sel \<noteq> []
             \<and> map_of (providers uc) sel = Some c
             \<and> generate c script (provider_kwargs sel kwargs quality format) = Inl e"
  then show "generate_video uc script (Some p) quality format kwargs =
                   Inr [(''success'', VBool False),
                        (''error'', VStr (''Video generation failed: '' @ exn_str e)),
                        (''provider'', VStr sel)]"
    by (simp add: generate_video_def)
qed


theorem all_providers_failed_result_witness:
  "generate_video
     (router [(''sora'', fixed_provider None (Inl (OtherError ''sora down''))),
              (''velo'', fixed_provider (Some ''key'') (Inl (OtherError ''quota exceeded'')))])
     [(''prompt'', VStr ''a calm lake'')] None (VStr ''hd'') (VStr ''mp4'') []
   = Inr [(''success'', VBool False),
          (''error'', VStr ''All providers failed. Last error from velo''),
          (''attempted_providers'', VList [VStr ''velo'', VStr ''sora''])]
   \<and> generate_video
     (router [(''velo'', fixed_provider (Some ''key'') (Inl (OtherError ''quota exceeded'')))])
     [(''prompt'', VStr ''a calm lake'')] None (VStr ''hd'') (VStr ''mp4'') []
   = Inr [(''success'', VBool False),
          (''error'', VStr ''Video generation failed: quota exceeded''),
          (''provider'', VStr ''velo'')]"
proof -
  let ?sora = "fixed_provider None (Inl (OtherError ''sora down''))"
  let ?velo = "fixed_provider (Some ''key'') (Inl (OtherError ''quota exceeded''))"
  let ?uc = "router [(''sora'', ?sora), (''velo'', ?velo)]"
  let ?one = "router [(''velo'', ?velo)]"
  let ?script = "[(''prompt'', VStr ''a calm lake'')]"
  have ne: "''velo'' \<noteq> []" by simp
  have first: "generate ?velo ?script (provider_kwargs ''velo'' [] (VStr ''hd'') (VStr ''mp4''))
                 = Inl (OtherError ''quota exceeded'')"
    by (simp add: fixed_provider_def)
  have sel: "select_provider ?uc None = Some ''velo''" by code_simp
  have c: "map_of (providers ?uc) ''velo'' = Some ?velo" by (simp add: router_def)
  have many: "length (providers ?uc) > 1" by (simp add: router_def)
  have nokw: "\<not> has_key [] ''failed_provider''" by (simp add: has_key_def)
  have rem: "remaining_providers ?uc ''velo'' = [''sora'']" by code_simp
  have rest: "\<forall>p \<in> set (remaining_providers ?uc ''velo''). \<forall>c'.
                   map_of (providers ?uc) p = Some c' \<longrightarrow>
                   provider_fails c' ?script (provider_kwargs p [] (VStr ''hd'') (VStr ''mp4''))"
    unfolding rem by (simp add: router_def provider_fails_def fixed_provider_def)
  from all_providers_failed_result [OF sel ne c, of ?script "[]" "VStr ''hd''" "VStr ''mp4''"]
    first many nokw rest
  have "generate_video ?uc ?script None (VStr ''hd'') (VStr ''mp4'') [] =
          Inr [(''success'', VBool False),
               (''error'', VStr (''All providers failed. Last error from '' @ ''velo'')),
               (''attempted_providers'', VList (map VStr (''velo'' # remaining_providers ?uc ''velo'')))]"
    by (elim conjE) blast
  then have 1: "generate_video ?uc ?script None (VStr ''hd'') (VStr ''mp4'') [] =
          Inr [(''success'', VBool False),
               (''error'', VStr ''All providers failed. Last error from velo''),
               (''attempted_providers'', VList [VStr ''velo'', VStr ''sora''])]"
    by (simp add: rem)
  have sel1: "select_provider ?one None = Some ''velo''" by code_simp
  have c1: "map_of (providers ?one) ''velo'' = Some ?velo" by (simp add: router_def)
  have single: "length (providers ?one) \<le> 1" by (simp add: router_def)
  from all_providers_failed_result [OF sel1 ne c1, of ?script "[]" "VStr ''hd''" "VStr ''mp4''"]
    first single
  have "generate_video ?one ?script None (VStr ''hd'') (VStr ''mp4'') [] =
          Inr [(''success'', VBool False),
               (''error'', VStr (''Video generation failed: '' @ exn_str (OtherError ''quota exceeded''))),
               (''provider'', VStr ''velo'')]"
    by (elim conjE) blast
  then have 2: "generate_video ?one ?script None (VStr ''hd'') (VStr ''mp4'') [] =
          Inr [(''success'', VBool False),
               (''error'', VStr ''Video generation failed: quota exceeded''),
               (''provider'', VStr ''velo'')]"
    by simp
  from 1 2 show ?thesis by (rule conjI)
qed

text \<open>
  C4 as stated fails: both providers raise, and neither error text occurs anywhere in the
  failure the router returns.
\<close>

theorem provider_errors_dropped_counterexample:
  "(case generate_video
      (router [(''sora'', fixed_provider None (Inl (OtherError ''sora down''))),
               (''velo'', fixed_provider (Some ''key'') (Inl (OtherError ''quota exceeded'')))])
      [(''prompt'', VStr ''a calm lake'')] None (VStr ''hd'') (VStr ''mp4'') [] of
      Inr result \<Rightarrow>
        dict_get result ''success'' VNone = VBool False
        \<and> dict_get result ''attempted_providers'' VNone = VList [VStr ''velo'', VStr ''sora'']
        \<and> \<not> occurs_in ''quota exceeded'' (VDict result)
        \<and> \<not> occurs_in ''sora down'' (VDict result)
    | Inl e \<Rightarrow> False)"
  by code_simp

theorem explicit_provider_selection_witness:
  "select_provider
     (router [(''sora'', fixed_provider None
        (Inr [(''success'', VBool True),
              (''video_url'', VStr ''https://mock-openai-sora.com/videos/v1.mp4'')]))])
     (Some ''runway'')
   = select_provider
     (router [(''sora'', fixed_provider None
        (Inr [(''success'', VBool True),
              (''video_url'', VStr ''https://mock-openai-sora.com/videos/v1.mp4'')]))])
     None
   \<and> select_provider
     (router [(''sora'', fixed_provider None
        (Inr [(''success'', VBool True),
              (''video_url'', VStr ''https://mock-openai-sora.com/videos/v1.mp4'')]))])
     (Some ''sora'') = Some ''sora''
   \<and> generate_video
     (router [(''sora'', fixed_provider None
        (Inr [(''success'', VBool True),
              (''video_url'', VStr ''https://mock-openai-sora.com/videos/v1.mp4'')]))])
     [(''prompt'', VStr ''a calm lake'')] (Some ''sora'') (VStr ''hd'') (VStr ''mp4'') []
     = Inr [(''success'', VBool True),
            (''video_url'', VStr ''https://mock-openai-sora.com/videos/v1.mp4''),
            (''unified_client_version'', VStr ''1.0.0''),
            (''selected_provider'', VStr ''sora''),
            (''provider_selection_reason'', VStr ''User requested sora'')]
   \<and> generate_video
     (router [(''sora'', fixed_provider None (Inl (OtherError ''sora down''))),
              (''velo'', fixed_provider (Some ''key'') (Inr [(''success'', VBool True)]))])
     [(''prompt'', VStr ''a calm lake'')] (Some ''sora'') (VStr ''hd'') (VStr ''mp4'') []
     = Inr [(''success'', VBool False),
            (''error'', VStr ''Video generation failed: sora down''),
            (''provider'', VStr ''sora'')]"
proof -
  let ?res = "[(''success'', VBool True),
               (''video_url'', VStr ''https://mock-openai-sora.com/videos/v1.mp4'')]"
  let ?ok = "fixed_provider None (Inr ?res)"
  let ?down = "fixed_provider None (Inl (OtherError ''sora down''))"
  let ?uc = "router [(''sora'', ?ok)]"
  let ?uc2 = "router [(''sora'', ?down),
                      (''velo'', fixed_provider (Some ''key'') (Inr [(''success'', VBool True)]))]"
  let ?script = "[(''prompt'', VStr ''a calm lake'')]"
  have a: "''runway'' \<noteq> []" and b: "''sora'' \<noteq> []" by simp_all
  have c: "\<not> in_providers ?uc ''runway''" and d: "in_providers ?uc ''sora''"
    and d2: "in_providers ?uc2 ''sora''"
    by (simp_all add: in_providers_def router_def)
  note run = explicit_provider_selection [OF a, of ?uc]
  note req = explicit_provider_selection [OF b, of ?uc ?script "[]" "VStr ''hd''" "VStr ''mp4''"]
  note req2 = explicit_provider_selection [OF b, of ?uc2 ?script "[]" "VStr ''hd''" "VStr ''mp4''"]
  from run c have 1: "select_provider ?uc (Some ''runway'') = select_provider ?uc None"
    by blast
  from req d have 2: "select_provider ?uc (Some ''sora'') = Some ''sora''"
    by blast
  from req2 d2 have 5: "select_provider ?uc2 (Some ''sora'') = Some ''sora''"
    by blast
  have m: "map_of (providers ?uc) ''sora'' = Some ?ok"
    and m2: "map_of (providers ?uc2) ''sora'' = Some ?down"
    by (simp_all add: router_def)
  have g: "generate ?ok ?script (provider_kwargs ''sora'' [] (VStr ''hd'') (VStr ''mp4'')) = Inr ?res"
    and g2: "generate ?down ?script (provider_kwargs ''sora'' [] (VStr ''hd'') (VStr ''mp4''))
               = Inl (OtherError ''sora down'')"
    by (simp_all add: fixed_provider_def)
  from req have "\<forall>sel c res.
             select_provider ?uc (Some ''sora'') = Some sel \<and> sel \<noteq> []
             \<and> map_of (providers ?uc) sel = Some c
             \<and> generate c ?script (provider_kwargs sel [] (VStr ''hd'') (VStr ''mp4'')) = Inr res
             \<longrightarrow> generate_video ?uc ?script (Some ''sora'') (VStr ''hd'') (VStr ''mp4'') [] =
                   Inr (AList.update ''provider_selection_reason''
                          (VStr (if ''sora'' = sel then ''User requested '' @ sel
                                 else ''User requested '' @ ''sora'' @ '' but '' @ sel
                                        @ '' was selected due to availability''))
                       (AList.update ''selected_provider'' (VStr sel)
                       (AList.update ''unified_client_version'' (VStr ''1.0.0'') res)))"
    by blast
  with 2 b m g
  have "generate_video ?uc ?script (Some ''sora'') (VStr ''hd'') (VStr ''mp4'') [] =
          Inr (AList.update ''provider_selection_reason''
                 (VStr (if ''sora'' = ''sora'' then ''User requested '' @ ''sora''
                        else ''User requested '' @ ''sora'' @ '' but '' @ ''sora''
                               @ '' was selected due to availability''))
              (AList.update ''selected_provider'' (VStr ''sora'')
              (AList.update ''unified_client_version'' (VStr ''1.0.0'') ?res)))"
    by blast
  then have 3: "generate_video ?uc ?script (Some ''sora'') (VStr ''hd'') (VStr ''mp4'') []
     = Inr [(''success'', VBool True),
            (''video_url'', VStr ''https://mock-openai-sora.com/videos/v1.mp4''),
            (''unified_client_version'', VStr ''1.0.0''),
            (''selected_provider'', VStr ''sora''),
            (''provider_selection_reason'', VStr ''User requested sora'')]"
    by simp
  from req2 have "\<forall>sel c e.
             select_provider ?uc2 (Some ''sora'') = Some sel \<and> sel \<noteq> []
             \<and> map_of (providers ?uc2) sel = Some c
             \<and> generate c ?script (provider_kwargs sel [] (VStr ''hd'') (VStr ''mp4'')) = Inl e
             \<longrightarrow> generate_video ?uc2 ?script (Some ''sora'') (VStr ''hd'') (VStr ''mp4'') [] =
                   Inr [(''success'', VBool False),
                        (''error'', VStr (''Video generation failed: '' @ exn_str e)),
                        (''provider'', VStr sel)]"
    by blast
  with 5 b m2 g2
  have "generate_video ?uc2 ?script (Some ''sora'') (VStr ''hd'') (VStr ''mp4'') [] =
          Inr [(''success'', VBool False),
               (''error'', VStr (''Video generation failed: '' @ exn_str (OtherError ''sora down''))),
               (''provider'', VStr ''sora'')]"
    by blast
  then have 4: "generate_video ?uc2 ?script (Some ''sora'') (VStr ''hd'') (VStr ''mp4'') []
     = Inr [(''success'', VBool False),
            (''error'', VStr ''Video generation failed: sora down''),
            (''provider'', VStr ''sora'')]"
    by simp
  from 1 2 3 4 show ?thesis by blast
qed

text \<open>
  C3 as stated fails: the requested provider is not registered, and the call succeeds on
  another provider.
\<close>

theorem unavailable_provider_replaced_counterexample:
  "generate_video
     (router [(''sora'', fixed_provider None
        (Inr [(''success'', VBool True),
              (''video_url'', VStr ''https://mock-openai-sora.com/videos/v1.mp4'')]))])
     [(''prompt'', VStr ''a calm lake'')] (Some ''runway'') (VStr ''hd'') (VStr ''mp4'') []
   = Inr [(''success'', VBool True),
          (''video_url'', VStr ''https://mock-openai-sora.com/videos/v1.mp4''),
          (''unified_client_version'', VStr ''1.0.0''),
          (''selected_provider'', VStr ''sora''),
          (''provider_selection_reason'',
             VStr ''User requested runway but sora was selected due to availability'')]
   \<and> \<not> in_providers
       (router [(''sora'', fixed_provider None
          (Inr [(''success'', VBool True),
                (''video_url'', VStr ''https://mock-openai-sora.com/videos/v1.mp4'')]))])
       ''runway''"
  by code_simp

subsection \<open>Decoding and polling\<close>

lemma extract_body_unrecognised:
  assumes "\<not> has_key response ''predictions''" "\<not> has_key response ''candidates''"
          "\<not> has_key response ''videoUrl''" "\<not> has_key response ''video_uri''"
  shows "extract_body response = Inr None"
  using assms by (simp add: extract_body_def)

text \<open>
  C6, as the code has it. For a payload with none of the keys the decoder looks for,
  \<^verbatim>\<open>_extract_video_url_from_response\<close> returns a placeholder URL made from a fresh
  id and \<^verbatim>\<open>_save_video_from_response\<close> returns \<^verbatim>\<open>None\<close>; unless the payload names
  an operation, \<^verbatim>\<open>_call_velo_api\<close> then reports success with the placeholder as the
  video URL. No decode error is raised or returned.
\<close>

theorem unrecognised_payload_gets_placeholder:
  assumes "\<not> has_key response ''predictions''" and "\<not> has_key response ''candidates''"
      and "\<not> has_key response ''videoUrl''" and "\<not> has_key response ''video_uri''"
  shows "extract_video_url_from_response placeholder_id response =
           VStr (''https://storage.googleapis.com/velo-generated-videos/'' @ placeholder_id @ ''.mp4'')
       \<and> save_video_from_response b64decode timestamp write_ok response = None
       \<and> (\<not> has_key response ''name'' \<longrightarrow>
            call_velo_api_result model_name video_id placeholder_id generated_at b64decode
                timestamp write_ok script prompt_text response =
              [(''success'', VBool True),
               (''video_id'', VStr (''velo_'' @ video_id)),
               (''video_url'',
                  VStr (''https://storage.googleapis.com/velo-generated-videos/''
                          @ placeholder_id @ ''.mp4'')),
               (''provider'', VStr ''velo''),
               (''model'', VStr model_name),
               (''duration'', dict_get script ''duration'' (VInt 8)),
               (''prompt'', VStr prompt_text),
               (''api_response'', VDict response),
               (''generated_at'', generated_at)])"
proof -
  have ex: "extract_video_url_from_response placeholder_id response =
           VStr (''https://storage.googleapis.com/velo-generated-videos/'' @ placeholder_id @ ''.mp4'')"
    by (simp add: extract_video_url_from_response_def extract_body_unrecognised [OF assms]
          placeholder_url_def)
  have "dict_get response ''predictions'' (VList []) = VList []"
    using assms(1) by (simp add: dict_get_def has_key_def)
  then have sv: "save_video_from_response b64decode timestamp write_ok response = None"
    by (simp add: save_video_from_response_def save_video_body_def)
  show ?thesis
    using ex sv assms(1) by (simp add: call_velo_api_result_def)
qed










theorem unrecognised_payload_gets_placeholder_witness:
  "extract_video_url_from_response ''0123456789ab'' [(''status'', VStr ''ok'')]
     = VStr ''https://storage.googleapis.com/velo-generated-videos/0123456789ab.mp4''
   \<and> save_video_from_response no_b64decode ''20250101_120000'' True [(''status'', VStr ''ok'')]
     = None
   \<and> map_of (call_velo_api_result ''veo-3.1-generate-preview'' ''1a2b3c4d'' ''0123456789ab''
         (VFloat 1700000000) no_b64decode ''20250101_120000'' True
         [(''prompt'', VStr ''a calm lake'')] ''a calm lake'' [(''status'', VStr ''ok'')])
       ''success'' = Some (VBool True)"
proof -
  have a: "\<not> has_key [(''status'', VStr ''ok'')] ''predictions''"
    and b: "\<not> has_key [(''status'', VStr ''ok'')] ''candidates''"
    and c: "\<not> has_key [(''status'', VStr ''ok'')] ''videoUrl''"
    and d: "\<not> has_key [(''status'', VStr ''ok'')] ''video_uri''"
    and e: "\<not> has_key [(''status'', VStr ''ok'')] ''name''"
    by (simp_all add: has_key_def)
  from unrecognised_payload_gets_placeholder [OF a b c d, of "''0123456789ab''" no_b64decode
         "''20250101_120000''" True "''veo-3.1-generate-preview''" "''1a2b3c4d''"
         "VFloat 1700000000" "[(''prompt'', VStr ''a calm lake'')]" "''a calm lake''"] e
  show ?thesis by simp
qed

text \<open>
  C6 as stated fails: a body of neither shape is reported as a success whose video URL is
  the placeholder, and a body whose decoding raises gets the placeholder too.
\<close>

theorem fabricated_result_counterexample:
  "call_velo_api_result ''veo-3.1-generate-preview'' ''1a2b3c4d'' ''0123456789ab''
       (VFloat 1700000000) no_b64decode ''20250101_120000'' True
       [(''prompt'', VStr ''a calm lake''), (''duration'', VInt 8)] ''a calm lake''
       [(''status'', VStr ''ok'')]
   = [(''success'', VBool True),
      (''video_id'', VStr ''velo_1a2b3c4d''),
      (''video_url'',
         VStr ''https://storage.googleapis.com/velo-generated-videos/0123456789ab.mp4''),
      (''provider'', VStr ''velo''),
      (''model'', VStr ''veo-3.1-generate-preview''),
      (''duration'', VInt 8),
      (''prompt'', VStr ''a calm lake''),
      (''api_response'', VDict [(''status'', VStr ''ok'')]),
      (''generated_at'', VFloat 1700000000)]
   \<and> extract_video_url_from_response ''0123456789ab'' [(''predictions'', VInt 5)]
     = VStr ''https://storage.googleapis.com/velo-generated-videos/0123456789ab.mp4''"
  by code_simp



subsection \<open>Job status without a store\<close>

text \<open>
  C10. Without a database client \<^verbatim>\<open>get_job_status\<close> answers every job id, submitted
  or not, with the same made-up record: status \<^verbatim>\<open>completed\<close>, progress 100 and a
  non-empty mock result URL; it never answers \<^verbatim>\<open>None\<close>.
\<close>

theorem get_job_status_without_db:
  assumes "db_client w = None"
  shows "get_job_status now w jid =
           Some [(''id'', VStr jid),
                 (''status'', VStr ''completed''),
                 (''progress'', VInt 100),
                 (''current_step'', VStr ''completed''),
                 (''result_url'', VStr (''https://mock-results.com/'' @ jid @ ''.mp4''))]
         \<and> get_job_status now w jid \<noteq> None
         \<and> ''https://mock-results.com/'' @ jid @ ''.mp4'' \<noteq> []"
  using assms by (simp add: get_job_status_def)

theorem get_job_status_without_db_witness:
  "db_client (plain_worker None) = None
   \<and> get_job_status ''t0'' (plain_worker None) ''never-submitted'' =
       Some [(''id'', VStr ''never-submitted''),
             (''status'', VStr ''completed''),
             (''progress'', VInt 100),
             (''current_step'', VStr ''completed''),
             (''result_url'', VStr ''https://mock-results.com/never-submitted.mp4'')]"
  using get_job_status_without_db [of "plain_worker None" "''t0''" "''never-submitted''"]
  by (simp add: plain_worker_def)

subsection \<open>Writes to the job store\<close>

lemma map_of_set_clauses_other:
  "k \<notin> fst ` set us \<Longrightarrow> map_of (set_clauses us r) k = map_of r k"
  by (induction us arbitrary: r) (auto simp: update_conv')

lemma map_of_set_clauses_status:
  "distinct (map fst us) \<Longrightarrow> map_of us ''status'' = Some v \<Longrightarrow>
   map_of (set_clauses us r) ''status'' = Some (Plain v)"
  by (induction us arbitrary: r) (auto simp: update_conv' map_of_set_clauses_other split: if_splits)

lemma build_updates_keys:
  "fst ` set (build_updates now wid st pr step ru rd em) \<subseteq>
     {''status'', ''progress'', ''current_step'', ''updated_at'', ''worker_id'', ''result_url'', ''result_data'', ''error_message''}"
  by (auto simp: build_updates_def Let_def  split: if_splits)

lemma build_updates_distinct: "distinct (map fst (build_updates now wid st pr step ru rd em))"
  by (simp add: build_updates_def Let_def distinct_update)

lemma build_updates_status: "map_of (build_updates now wid st pr step ru rd em) ''status'' = Some (VStr st)"
  by (simp add: build_updates_def Let_def update_conv')

lemma build_updates_no_id: "''id'' \<notin> fst ` set (build_updates now wid st pr step ru rd em)"
  using build_updates_keys [of now wid st pr step ru rd em] by auto

lemma build_updates_status_progress:
  "dict_get (build_updates now wid st pr step ru rd em) ''status'' VNone = VStr st"
  "dict_get (build_updates now wid st pr step ru rd em) ''progress'' VNone = VInt pr"
  by (simp_all add: build_updates_def Let_def dict_get_def update_conv')

lemma summary_build_updates:
  "summary (jid, build_updates now wid st pr step ru rd em) = (jid, VStr st, VInt pr)"
  by (simp add: summary_def build_updates_status_progress)

text \<open>Which writes of the worker the driver takes.\<close>

lemma driver_accepts_plain:
  "driver_accepts jid (build_updates now wid st pr step VNone VNone em)
     = (adaptable jid \<and> (truthy em \<longrightarrow> adaptable em))"
  by (auto simp: driver_accepts_def build_updates_def Let_def set_update_subset_insert
           dest!: set_mp [OF set_update_subset_insert])

lemma driver_rejects_result_data:
  "truthy (VDict result) \<Longrightarrow>
   \<not> driver_accepts jid (build_updates now wid st pr step ru (VDict result) em)"
proof -
  assume t: "truthy (VDict result)"
  have "(''result_data'', VDict result) \<in> set (build_updates now wid st pr step ru (VDict result) em)"
    using t
    by (cases "truthy ru"; cases "truthy em")
       (simp_all add: build_updates_def Let_def AList.update.simps)
  then have "\<exists>kv \<in> set (build_updates now wid st pr step ru (VDict result) em).
           fst kv \<notin> {''persona_ids'', ''parameters''} \<and> \<not> adaptable (snd kv)"
    by (intro bexI [of _ "(''result_data'', VDict result)"]) simp_all
  then show ?thesis
    unfolding driver_accepts_def by blast
qed


lemma row_has_id_set_clauses:
  "''id'' \<notin> fst ` set us \<Longrightarrow> row_has_id x (set_clauses us r) = row_has_id x r"
  by (simp add: row_has_id_def map_of_set_clauses_other)

lemma filter_rows_after_update:
  assumes "''id'' \<notin> fst ` set us"
  shows "filter (row_has_id x) (map (\<lambda>r. if row_has_id jid r then set_clauses us r else r) rows)
         = map (\<lambda>r. if row_has_id jid r then set_clauses us r else r) (filter (row_has_id x) rows)"
  using assms by (induction rows) (simp_all add: row_has_id_set_clauses)

lemma in_store_update:
  assumes "''id'' \<notin> fst ` set us"
  shows "in_store (snd (update_generation_job d jid us)) x = in_store d x"
  by (simp add: update_generation_job_def in_store_def filter_rows_after_update [OF assms])

lemma stored_status_after_update:
  assumes "connection d" "\<not> failing d" "driver_accepts (VStr jid) us"
      and "''id'' \<notin> fst ` set us" "distinct (map fst us)"
      and "map_of us ''status'' = Some v" "in_store d jid"
  shows "stored_status (snd (update_generation_job d (VStr jid) us)) jid = Some (Plain v)"
proof -
  from assms(7) obtain r rs
    where fr: "filter (row_has_id (VStr jid)) (generation_jobs d) = r # rs"
    by (auto simp: in_store_def neq_Nil_conv)
  have rr: "row_has_id (VStr jid) r"
    using fr by (metis filter_eq_ConsD)
  show ?thesis
    using assms(1,2,3) rr
    by (simp add: update_generation_job_def stored_status_def
          filter_rows_after_update [OF assms(4)] fr map_of_set_clauses_status [OF assms(5,6)])
qed

subsection \<open>What a status write does to the worker\<close>

lemma update_job_status_frame:
  "is_running (update_job_status clock w jid st pr step ru rd em) = is_running w"
  "job_queue (update_job_status clock w jid st pr step ru rd em) = job_queue w"
  "redis_client (update_job_status clock w jid st pr step ru rd em) = redis_client w"
  "worker_id (update_job_status clock w jid st pr step ru rd em) = worker_id w"
  "video_client (update_job_status clock w jid st pr step ru rd em) = video_client w"
  "clock_reads (update_job_status clock w jid st pr step ru rd em) = Suc (clock_reads w)"
  by (simp_all add: update_job_status_def Let_def split: option.splits)

lemma update_job_status_ready:
  "store_ready (update_job_status clock w jid st pr step ru rd em) = store_ready w"
  by (cases "db_client w")
     (simp_all add: update_job_status_def Let_def store_ready_def update_generation_job_def)

lemma update_job_status_committed:
  assumes "store_ready w"
  shows "committed (update_job_status clock w jid st pr step ru rd em) =
           committed w @
           (if driver_accepts jid
                 (build_updates (clock (clock_reads w)) (worker_id w) st pr step ru rd em)
            then [(jid, build_updates (clock (clock_reads w)) (worker_id w) st pr step ru rd em)]
            else [])"
proof -
  from assms obtain d where d: "db_client w = Some d" "connection d" "\<not> failing d"
    by (auto simp: store_ready_def split: option.splits)
  then show ?thesis
    by (simp add: update_job_status_def Let_def committed_def update_generation_job_def)
qed

lemma update_job_status_unready:
  assumes "\<not> store_ready w"
  shows "db_client (update_job_status clock w jid st pr step ru rd em) = db_client w"
  using assms
  by (cases "db_client w")
     (auto simp: update_job_status_def Let_def store_ready_def update_generation_job_def)

lemma update_job_status_holds_row:
  "holds_row (update_job_status clock w jid st pr step ru rd em) x = holds_row w x"
  by (cases "db_client w")
     (simp_all add: update_job_status_def Let_def holds_row_def
        in_store_update [OF build_updates_no_id])

lemma update_job_status_no_store:
  "(db_client (update_job_status clock w jid st pr step ru rd em) = None) = (db_client w = None)"
  by (cases "db_client w") (simp_all add: update_job_status_def Let_def)

lemma update_job_status_shown:
  assumes "store_ready w" "holds_row w s"
      and "driver_accepts (VStr s)
             (build_updates (clock (clock_reads w)) (worker_id w) st pr step ru rd em)"
  shows "shown_status (update_job_status clock w (VStr s) st pr step ru rd em) s
           = Some (Plain (VStr st))"
proof -
  from assms(1,2) obtain d where d: "db_client w = Some d" "connection d" "\<not> failing d"
      "in_store d s"
    by (auto simp: store_ready_def holds_row_def split: option.splits)
  from stored_status_after_update [OF d(2,3) assms(3) build_updates_no_id
         build_updates_distinct build_updates_status d(4)] d(1)
  show ?thesis
    by (simp add: update_job_status_def Let_def shown_status_def)
qed


subsection \<open>The statements one job commits\<close>

lemma truthy_success_nonempty:
  "truthy (dict_get result ''success'' VNone) \<Longrightarrow> truthy (VDict result)"
  by (cases result) (simp_all add: dict_get_def)

lemma completed_write_rejected:
  assumes "store_ready w" "truthy (dict_get result ''success'' VNone)"
  shows "committed (update_job_status clock w jid ''completed'' 100 ''Generation completed''
                      (dict_get result ''video_url'' VNone) (VDict result) VNone)
           = committed w"
  using assms
  by (simp add: update_job_status_committed
        driver_rejects_result_data [OF truthy_success_nonempty])

lemma writes_sinceI:
  "committed w' = committed w @ xs \<Longrightarrow> map summary xs = ys \<Longrightarrow> writes_since w w' = ys"
  by (auto simp: writes_since_def)

lemmas write_facts =
  update_job_status_committed update_job_status_ready update_job_status_frame
  driver_accepts_plain summary_build_updates

text \<open>
  C5, as the code has it. With a connected store and a job id the driver takes, one
  \<^verbatim>\<open>_process_job\<close> commits the progress values 10, 30, 90 in this order, fewer when
  the attempt raises earlier: only 10 for an unknown job type, for a worker without a
  video client and for a job whose script cannot be built, 10 and 30 when the call of
  the router raises. Every attempt that raises, and every attempt whose result reports
  no success, then commits a \<^verbatim>\<open>failed\<close> write with progress 0. For a result that
  reports success nothing is committed after 10, 30, 90.
\<close>

theorem process_job_progress_sequence:
  assumes ready: "store_ready w"
      and jid: "py_getitem job ''id'' = Inr jid" "adaptable jid"
      and jtype: "py_getitem job ''type'' = Inr jtype"
  shows "(jtype \<noteq> VStr ''video'' \<longrightarrow>
            writes_since w (snd (process_job_run clock rt job w)) =
              [(jid, VStr ''processing'', VInt 10), (jid, VStr ''failed'', VInt 0)])
       \<and> (jtype = VStr ''video'' \<and> video_client w = None \<longrightarrow>
            writes_since w (snd (process_job_run clock rt job w)) =
              [(jid, VStr ''processing'', VInt 10), (jid, VStr ''failed'', VInt 0)])
       \<and> (\<forall>vc e. jtype = VStr ''video'' \<and> video_client w = Some vc \<and> build_script job = Inl e \<longrightarrow>
            writes_since w (snd (process_job_run clock rt job w)) =
              [(jid, VStr ''processing'', VInt 10), (jid, VStr ''failed'', VInt 0)])
       \<and> (\<forall>vc script ps e.
            jtype = VStr ''video'' \<and> video_client w = Some vc \<and> build_script job = Inr script
            \<and> job_parameters job = Inr ps \<and> call_generate_video rt vc script ps = Inl e \<longrightarrow>
            writes_since w (snd (process_job_run clock rt job w)) =
              [(jid, VStr ''processing'', VInt 10), (jid, VStr ''processing'', VInt 30),
               (jid, VStr ''failed'', VInt 0)])
       \<and> (\<forall>vc script ps result.
            jtype = VStr ''video'' \<and> video_client w = Some vc \<and> build_script job = Inr script
            \<and> job_parameters job = Inr ps \<and> call_generate_video rt vc script ps = Inr result \<longrightarrow>
            take 3 (writes_since w (snd (process_job_run clock rt job w))) =
              [(jid, VStr ''processing'', VInt 10), (jid, VStr ''processing'', VInt 30),
               (jid, VStr ''processing'', VInt 90)])
       \<and> (\<forall>vc script ps result.
            jtype = VStr ''video'' \<and> video_client w = Some vc \<and> build_script job = Inr script
            \<and> job_parameters job = Inr ps \<and> call_generate_video rt vc script ps = Inr result
            \<and> \<not> truthy (dict_get result ''success'' VNone)
            \<and> adaptable (dict_get result ''error'' (VStr ''Unknown error'')) \<longrightarrow>
            writes_since w (snd (process_job_run clock rt job w)) =
              [(jid, VStr ''processing'', VInt 10), (jid, VStr ''processing'', VInt 30),
               (jid, VStr ''processing'', VInt 90), (jid, VStr ''failed'', VInt 0)])
       \<and> (\<forall>vc script ps result.
            jtype = VStr ''video'' \<and> video_client w = Some vc \<and> build_script job = Inr script
            \<and> job_parameters job = Inr ps \<and> call_generate_video rt vc script ps = Inr result
            \<and> truthy (dict_get result ''success'' VNone) \<longrightarrow>
            writes_since w (snd (process_job_run clock rt job w)) =
              [(jid, VStr ''processing'', VInt 10), (jid, VStr ''processing'', VInt 30),
               (jid, VStr ''processing'', VInt 90)])"
proof (intro conjI allI impI)
  assume "jtype \<noteq> VStr ''video''"
  then show "writes_since w (snd (process_job_run clock rt job w)) =
              [(jid, VStr ''processing'', VInt 10), (jid, VStr ''failed'', VInt 0)]"
    using ready jid jtype
    by (intro writes_sinceI,
        simp add: process_job_run_def process_job_body_def write_facts,
        simp add: summary_build_updates)
next
  assume "jtype = VStr ''video'' \<and> video_client w = None"
  then show "writes_since w (snd (process_job_run clock rt job w)) =
              [(jid, VStr ''processing'', VInt 10), (jid, VStr ''failed'', VInt 0)]"
    using ready jid jtype
    by (intro writes_sinceI,
        simp add: process_job_run_def process_job_body_def process_video_job_def write_facts,
        simp add: summary_build_updates)
next
  fix vc e
  assume "jtype = VStr ''video'' \<and> video_client w = Some vc \<and> build_script job = Inl e"
  then show "writes_since w (snd (process_job_run clock rt job w)) =
              [(jid, VStr ''processing'', VInt 10), (jid, VStr ''failed'', VInt 0)]"
    using ready jid jtype
    by (intro writes_sinceI,
        simp add: process_job_run_def process_job_body_def process_video_job_def write_facts,
        simp add: summary_build_updates)
next
  fix vc script ps e
  assume "jtype = VStr ''video'' \<and> video_client w = Some vc \<and> build_script job = Inr script
            \<and> job_parameters job = Inr ps \<and> call_generate_video rt vc script ps = Inl e"
  then show "writes_since w (snd (process_job_run clock rt job w)) =
              [(jid, VStr ''processing'', VInt 10), (jid, VStr ''processing'', VInt 30),
               (jid, VStr ''failed'', VInt 0)]"
    using ready jid jtype
    by (intro writes_sinceI,
        simp add: process_job_run_def process_job_body_def process_video_job_def Let_def
          write_facts,
        simp add: summary_build_updates)
next
  fix vc script ps result
  assume h: "jtype = VStr ''video'' \<and> video_client w = Some vc \<and> build_script job = Inr script
            \<and> job_parameters job = Inr ps \<and> call_generate_video rt vc script ps = Inr result"
  show "take 3 (writes_since w (snd (process_job_run clock rt job w))) =
              [(jid, VStr ''processing'', VInt 10), (jid, VStr ''processing'', VInt 30),
               (jid, VStr ''processing'', VInt 90)]"
  proof -
    have "\<exists>xs. committed (snd (process_job_run clock rt job w)) =
            committed w @
              [(jid, build_updates (clock (clock_reads w)) (worker_id w) ''processing'' 10
                       ''Starting generation'' VNone VNone VNone),
               (jid, build_updates (clock (Suc (clock_reads w))) (worker_id w) ''processing'' 30
                       ''Generating video'' VNone VNone VNone),
               (jid, build_updates (clock (Suc (Suc (clock_reads w)))) (worker_id w)
                       ''processing'' 90 ''Finalizing'' VNone VNone VNone)] @ xs"
      using h ready jid jtype
      by (cases "truthy (dict_get result ''success'' VNone)")
         (simp_all add: process_job_run_def process_job_body_def process_video_job_def Let_def
            write_facts)
    then obtain xs where "committed (snd (process_job_run clock rt job w)) =
            committed w @
              [(jid, build_updates (clock (clock_reads w)) (worker_id w) ''processing'' 10
                       ''Starting generation'' VNone VNone VNone),
               (jid, build_updates (clock (Suc (clock_reads w))) (worker_id w) ''processing'' 30
                       ''Generating video'' VNone VNone VNone),
               (jid, build_updates (clock (Suc (Suc (clock_reads w)))) (worker_id w)
                       ''processing'' 90 ''Finalizing'' VNone VNone VNone)] @ xs"
      by blast
    then show ?thesis
      by (simp add: writes_since_def summary_build_updates)
  qed
next
  fix vc script ps result
  assume "jtype = VStr ''video'' \<and> video_client w = Some vc \<and> build_script job = Inr script
            \<and> job_parameters job = Inr ps \<and> call_generate_video rt vc script ps = Inr result
            \<and> \<not> truthy (dict_get result ''success'' VNone)
            \<and> adaptable (dict_get result ''error'' (VStr ''Unknown error''))"
  then show "writes_since w (snd (process_job_run clock rt job w)) =
              [(jid, VStr ''processing'', VInt 10), (jid, VStr ''processing'', VInt 30),
               (jid, VStr ''processing'', VInt 90), (jid, VStr ''failed'', VInt 0)]"
    using ready jid jtype
    by (intro writes_sinceI,
        simp add: process_job_run_def process_job_body_def process_video_job_def Let_def
          write_facts,
        simp add: summary_build_updates)
next
  fix vc script ps result
  assume "jtype = VStr ''video'' \<and> video_client w = Some vc \<and> build_script job = Inr script
            \<and> job_parameters job = Inr ps \<and> call_generate_video rt vc script ps = Inr result
            \<and> truthy (dict_get result ''success'' VNone)"
  then show "writes_since w (snd (process_job_run clock rt job w)) =
              [(jid, VStr ''processing'', VInt 10), (jid, VStr ''processing'', VInt 30),
               (jid, VStr ''processing'', VInt 90)]"
    using ready jid jtype
    by (intro writes_sinceI,
        simp add: process_job_run_def process_job_body_def process_video_job_def Let_def
          completed_write_rejected update_job_status_ready update_job_status_frame
          update_job_status_committed [where rd = VNone] driver_accepts_plain,
        simp add: summary_build_updates)
qed


subsection \<open>What processing a job leaves alone\<close>

lemma process_video_job_preserves:
  assumes "\<And>w jid st pr step ru rd em.
             P (update_job_status clock w jid st pr step ru rd em) = P w"
  shows "P (snd (process_video_job clock rt job jid w)) = P w"
  by (simp add: process_video_job_def Let_def assms split: option.splits sum.splits)

lemma process_job_body_preserves:
  assumes "\<And>w jid st pr step ru rd em.
             P (update_job_status clock w jid st pr step ru rd em) = P w"
  shows "P (snd (process_job_body clock rt job jid jtype w)) = P w"
proof (cases "jtype = VStr ''video''")
  case False
  then show ?thesis by (simp add: process_job_body_def assms)
next
  case True
  obtain r w2 where pv: "process_video_job clock rt job jid
           (update_job_status clock w jid ''processing'' 10 ''Starting generation''
              VNone VNone VNone) = (r, w2)"
    by (cases "process_video_job clock rt job jid
           (update_job_status clock w jid ''processing'' 10 ''Starting generation''
              VNone VNone VNone)")
  have "P w2 = P w"
    using process_video_job_preserves [of P clock rt job jid, OF assms] pv
    by (metis assms snd_conv)
  then show ?thesis
    using True pv by (cases r) (simp_all add: process_job_body_def assms)
qed

lemma process_job_run_preserves:
  assumes "\<And>w jid st pr step ru rd em.
             P (update_job_status clock w jid st pr step ru rd em) = P w"
  shows "P (snd (process_job_run clock rt job w)) = P w"
proof (cases "py_getitem job ''id''")
  case (Inl e)
  then show ?thesis by (simp add: process_job_run_def)
next
  case (Inr jid)
  show ?thesis
  proof (cases "py_getitem job ''type''")
    case (Inl e)
    with Inr show ?thesis by (simp add: process_job_run_def)
  next
    case jt: (Inr jtype)
    obtain r w1 where b: "process_job_body clock rt job jid jtype w = (r, w1)"
      by (cases "process_job_body clock rt job jid jtype w")
    have "P w1 = P w"
      using process_job_body_preserves [of P clock rt job jid jtype, OF assms] b
      by (metis snd_conv)
    then show ?thesis
      using Inr jt b by (cases r) (simp_all add: process_job_run_def assms)
  qed
qed

lemma get_next_job_frame:
  assumes "get_next_job w = (r, w')"
  shows "is_running w' = is_running w" "db_client w' = db_client w"
        "worker_id w' = worker_id w" "video_client w' = video_client w"
  using assms
  by (auto simp: get_next_job_def get_from_redis_queue_def Let_def
           split: option.splits if_splits list.splits prod.splits)

lemma get_next_job_truthy:
  assumes "get_next_job w = (Some job, w')"
  shows "truthy job"
  using assms
  by (auto simp: get_next_job_def get_from_redis_queue_def Let_def job_json_def
           split: option.splits if_splits list.splits prod.splits)

lemma get_next_job_no_redis:
  assumes "redis_client w = None"
  shows "get_next_job w =
           (case job_queue w of
              j # js \<Rightarrow> (Some (VDict (job_json j)), w\<lparr>job_queue := js\<rparr>)
            | [] \<Rightarrow> (None, w))"
  using assms by (simp add: get_next_job_def)

lemma worker_turn_eq:
  "worker_turn clock rt w = snd (worker_turn_body clock rt w)"
  by (simp add: worker_turn_def split: prod.splits sum.splits)

lemma worker_turn_running: "is_running (worker_turn clock rt w) = is_running w"
proof (cases "get_next_job w")
  case (Pair r w0)
  then show ?thesis
    using get_next_job_frame(1) [OF Pair]
      process_job_run_preserves [of is_running clock, OF update_job_status_frame(1)]
    by (cases r) (simp_all add: worker_turn_eq worker_turn_body_def)
qed

lemma worker_turn_no_redis:
  assumes "redis_client w = None"
  shows "redis_client (worker_turn clock rt w) = None"
    and "job_queue (worker_turn clock rt w) = tl (job_queue w)"
  using assms
    process_job_run_preserves [of redis_client clock, OF update_job_status_frame(3)]
    process_job_run_preserves [of job_queue clock, OF update_job_status_frame(2)]
  by (simp_all add: worker_turn_eq worker_turn_body_def get_next_job_no_redis split: list.splits)

lemma worker_loop_drains:
  "is_running w \<Longrightarrow> redis_client w = None \<Longrightarrow>
   job_queue (worker_loop n clock rt w) = drop n (job_queue w)"
proof (induction n arbitrary: w)
  case 0
  then show ?case by simp
next
  case (Suc n)
  then show ?case
    by (simp add: worker_turn_running worker_turn_no_redis drop_Suc)
qed

lemma worker_loop_running:
  "is_running w \<Longrightarrow> is_running (worker_loop n clock rt w)"
  by (induction n arbitrary: w) (simp_all add: worker_turn_running)


text \<open>
  C8, as the code has it, for a turn of the loop of \<^verbatim>\<open>start_worker\<close> that takes a job
  from the queue. When reading \<^verbatim>\<open>id\<close> or \<^verbatim>\<open>type\<close> raises, the exception leaves
  \<^verbatim>\<open>_process_job\<close>, the handler of \<^verbatim>\<open>start_worker\<close> catches it and nothing is
  written. When the body of the \<^verbatim>\<open>try\<close> of \<^verbatim>\<open>_process_job\<close> raises, the turn ends
  with the \<^verbatim>\<open>failed\<close> write carrying \<^verbatim>\<open>str(e)\<close>: a connected store whose driver
  takes the id commits it as its last statement, and shows the job as \<^verbatim>\<open>failed\<close>
  when it holds its row. Without such a store nothing is recorded, and a store that has
  no row for the job has none afterwards. In every case the turn leaves \<^verbatim>\<open>is_running\<close>
  and the rest of the queue as they were, and the loop goes on to the next turn.
\<close>

theorem worker_survives_job_error:
  assumes nxt: "get_next_job w = (Some job, w0)"
  shows "(\<forall>e. py_getitem job ''id'' = Inl e
              \<or> (\<exists>jid. py_getitem job ''id'' = Inr jid \<and> py_getitem job ''type'' = Inl e)
            \<longrightarrow> worker_turn_body clock rt w = (Inl e, w0) \<and> worker_turn clock rt w = w0)
       \<and> (\<forall>jid jtype e w1.
            py_getitem job ''id'' = Inr jid \<and> py_getitem job ''type'' = Inr jtype
            \<and> process_job_body clock rt job jid jtype w0 = (Inl e, w1)
            \<longrightarrow> worker_turn_body clock rt w
                    = (Inr (), update_job_status clock w1 jid ''failed'' 0 ''Processing error''
                                 VNone VNone (VStr (exn_str e)))
              \<and> worker_turn clock rt w
                    = update_job_status clock w1 jid ''failed'' 0 ''Processing error''
                        VNone VNone (VStr (exn_str e))
              \<and> (store_ready w \<and> adaptable jid \<longrightarrow>
                    committed (worker_turn clock rt w) \<noteq> []
                    \<and> (\<exists>now. last (committed (worker_turn clock rt w))
                          = (jid, build_updates now (worker_id w) ''failed'' 0
                                    ''Processing error'' VNone VNone (VStr (exn_str e)))))
              \<and> (\<forall>s. store_ready w \<and> jid = VStr s \<and> holds_row w s \<longrightarrow>
                    shown_status (worker_turn clock rt w) s = Some (Plain (VStr ''failed''))))
       \<and> (\<not> store_ready w \<longrightarrow> db_client (worker_turn clock rt w) = db_client w)
       \<and> (\<forall>s. \<not> holds_row w s \<longrightarrow> \<not> holds_row (worker_turn clock rt w) s)
       \<and> is_running (worker_turn clock rt w) = is_running w
       \<and> job_queue (worker_turn clock rt w) = job_queue w0
       \<and> redis_client (worker_turn clock rt w) = redis_client w0
       \<and> (is_running w \<longrightarrow>
            (\<forall>n. worker_loop (Suc n) clock rt w = worker_loop n clock rt (worker_turn clock rt w)
                 \<and> is_running (worker_loop n clock rt w)))
       \<and> (\<forall>n. start_worker (Suc n) clock rt w
                 = worker_loop n clock rt (worker_turn clock rt (w\<lparr>is_running := True\<rparr>))
               \<and> is_running (start_worker n clock rt w))
       \<and> (is_running w \<and> redis_client w = None \<longrightarrow>
            (\<forall>n. job_queue (worker_loop n clock rt w) = drop n (job_queue w)))"
proof -
  have tr: "truthy job"
    using nxt by (rule get_next_job_truthy)
  have turn: "worker_turn clock rt w = snd (process_job_run clock rt job w0)"
    by (simp add: worker_turn_eq worker_turn_body_def nxt tr)
  have db0: "db_client w0 = db_client w" and wid0: "worker_id w0 = worker_id w"
    using get_next_job_frame [OF nxt] by simp_all
  have ready0: "store_ready w0 = store_ready w"
    and row0: "\<And>s. holds_row w0 s = holds_row w s"
    by (simp_all add: store_ready_def holds_row_def db0)
  have A: "\<forall>e. py_getitem job ''id'' = Inl e
              \<or> (\<exists>jid. py_getitem job ''id'' = Inr jid \<and> py_getitem job ''type'' = Inl e)
            \<longrightarrow> worker_turn_body clock rt w = (Inl e, w0) \<and> worker_turn clock rt w = w0"
    by (auto simp: worker_turn_def worker_turn_body_def nxt tr process_job_run_def)
  have B: "\<forall>jid jtype e w1.
            py_getitem job ''id'' = Inr jid \<and> py_getitem job ''type'' = Inr jtype
            \<and> process_job_body clock rt job jid jtype w0 = (Inl e, w1)
            \<longrightarrow> worker_turn_body clock rt w
                    = (Inr (), update_job_status clock w1 jid ''failed'' 0 ''Processing error''
                                 VNone VNone (VStr (exn_str e)))
              \<and> worker_turn clock rt w
                    = update_job_status clock w1 jid ''failed'' 0 ''Processing error''
                        VNone VNone (VStr (exn_str e))
              \<and> (store_ready w \<and> adaptable jid \<longrightarrow>
                    committed (worker_turn clock rt w) \<noteq> []
                    \<and> (\<exists>now. last (committed (worker_turn clock rt w))
                          = (jid, build_updates now (worker_id w) ''failed'' 0
                                    ''Processing error'' VNone VNone (VStr (exn_str e)))))
              \<and> (\<forall>s. store_ready w \<and> jid = VStr s \<and> holds_row w s \<longrightarrow>
                    shown_status (worker_turn clock rt w) s = Some (Plain (VStr ''failed'')))"
  proof (intro allI impI)
    fix jid jtype e w1
    assume h: "py_getitem job ''id'' = Inr jid \<and> py_getitem job ''type'' = Inr jtype
            \<and> process_job_body clock rt job jid jtype w0 = (Inl e, w1)"
    let ?w' = "update_job_status clock w1 jid ''failed'' 0 ''Processing error''
                 VNone VNone (VStr (exn_str e))"
    have tb: "worker_turn_body clock rt w = (Inr (), ?w')"
      using h by (simp add: worker_turn_body_def nxt tr process_job_run_def)
    then have t: "worker_turn clock rt w = ?w'"
      by (simp add: worker_turn_def)
    have w1: "w1 = snd (process_job_body clock rt job jid jtype w0)"
      using h by simp
    have ready1: "store_ready w1 = store_ready w"
      unfolding w1 using process_job_body_preserves [of store_ready clock, OF update_job_status_ready]
      by (simp add: ready0)
    have wid1: "worker_id w1 = worker_id w"
      unfolding w1 using process_job_body_preserves [of worker_id clock, OF update_job_status_frame(4)]
      by (simp add: wid0)
    have row1: "\<And>s. holds_row w1 s = holds_row w s"
      unfolding w1
      using process_job_body_preserves [of "\<lambda>v. holds_row v s" clock for s,
              OF update_job_status_holds_row]
      by (simp add: row0)
    have c: "store_ready w \<and> adaptable jid \<longrightarrow>
               committed (worker_turn clock rt w) \<noteq> []
               \<and> (\<exists>now. last (committed (worker_turn clock rt w))
                     = (jid, build_updates now (worker_id w) ''failed'' 0
                               ''Processing error'' VNone VNone (VStr (exn_str e))))"
      by (auto simp: t update_job_status_committed ready1 wid1 driver_accepts_plain)
    have d: "\<forall>s. store_ready w \<and> jid = VStr s \<and> holds_row w s \<longrightarrow>
               shown_status (worker_turn clock rt w) s = Some (Plain (VStr ''failed''))"
      by (auto simp: t ready1 row1 driver_accepts_plain intro!: update_job_status_shown)
    from tb t c d
    show "worker_turn_body clock rt w = (Inr (), ?w')
              \<and> worker_turn clock rt w = ?w'
              \<and> (store_ready w \<and> adaptable jid \<longrightarrow>
                    committed (worker_turn clock rt w) \<noteq> []
                    \<and> (\<exists>now. last (committed (worker_turn clock rt w))
                          = (jid, build_updates now (worker_id w) ''failed'' 0
                                    ''Processing error'' VNone VNone (VStr (exn_str e)))))
              \<and> (\<forall>s. store_ready w \<and> jid = VStr s \<and> holds_row w s \<longrightarrow>
                    shown_status (worker_turn clock rt w) s = Some (Plain (VStr ''failed'')))"
      by blast
  qed
  have C: "\<not> store_ready w \<longrightarrow> db_client (worker_turn clock rt w) = db_client w"
  proof
    assume nr: "\<not> store_ready w"
    have keep: "\<And>v jid st pr step ru rd em.
        (\<not> store_ready v \<and> db_client (update_job_status clock v jid st pr step ru rd em) = db_client w)
          = (\<not> store_ready v \<and> db_client v = db_client w)"
      by (auto simp: update_job_status_ready update_job_status_unready)
    have "(\<not> store_ready (snd (process_job_run clock rt job w0))
            \<and> db_client (snd (process_job_run clock rt job w0)) = db_client w)
          = (\<not> store_ready w0 \<and> db_client w0 = db_client w)"
      by (rule process_job_run_preserves
            [of "\<lambda>v. \<not> store_ready v \<and> db_client v = db_client w" clock])
         (auto simp: update_job_status_ready update_job_status_unready)
    with nr show "db_client (worker_turn clock rt w) = db_client w"
      by (simp add: turn ready0 db0)
  qed
  have D: "\<forall>s. \<not> holds_row w s \<longrightarrow> \<not> holds_row (worker_turn clock rt w) s"
    using process_job_run_preserves [of "\<lambda>v. holds_row v s" clock rt job w0 for s,
            OF update_job_status_holds_row]
    by (simp add: turn row0)
  have E: "is_running (worker_turn clock rt w) = is_running w"
    by (rule worker_turn_running)
  have F: "job_queue (worker_turn clock rt w) = job_queue w0"
    and G: "redis_client (worker_turn clock rt w) = redis_client w0"
    unfolding turn
    by (rule process_job_run_preserves, simp add: update_job_status_frame)+
  have H: "is_running w \<longrightarrow>
            (\<forall>n. worker_loop (Suc n) clock rt w = worker_loop n clock rt (worker_turn clock rt w)
                 \<and> is_running (worker_loop n clock rt w))"
    by (simp add: worker_loop_running)
  have I: "\<forall>n. start_worker (Suc n) clock rt w
                 = worker_loop n clock rt (worker_turn clock rt (w\<lparr>is_running := True\<rparr>))
               \<and> is_running (start_worker n clock rt w)"
    by (simp add: start_worker_def worker_loop_running)
  have J: "is_running w \<and> redis_client w = None \<longrightarrow>
            (\<forall>n. job_queue (worker_loop n clock rt w) = drop n (job_queue w))"
    by (simp add: worker_loop_drains)
  from A B C D E F G H I J show ?thesis
    by (intro conjI)
qed


text \<open>
  C8 as stated fails: a job of an unknown type raises in \<^verbatim>\<open>_process_job\<close>; a worker
  without a store records nothing and \<^verbatim>\<open>get_job_status\<close> reports the job as
  \<^verbatim>\<open>completed\<close>; a store that has no row for the job shows no status for it.
\<close>

theorem unrecorded_failure_counterexample:
  "fst (get_next_job ((plain_worker None)\<lparr>job_queue := [example_job ''job-1'' ''audio'' []]\<rparr>))
     = Some (VDict (job_json (example_job ''job-1'' ''audio'' [])))
   \<and> fst (process_job_body (\<lambda>n. ''t'') example_runtime
            (VDict (job_json (example_job ''job-1'' ''audio'' [])))
            (VStr ''job-1'') (VStr ''audio'') (plain_worker None))
       = Inl (ValueError ''Unknown job type: audio'')
   \<and> db_client (worker_turn (\<lambda>n. ''t'') example_runtime
         ((plain_worker None)\<lparr>job_queue := [example_job ''job-1'' ''audio'' []]\<rparr>)) = None
   \<and> get_job_status ''t1''
        (worker_turn (\<lambda>n. ''t'') example_runtime
           ((plain_worker None)\<lparr>job_queue := [example_job ''job-1'' ''audio'' []]\<rparr>))
        ''job-1''
       = Some [(''id'', VStr ''job-1''), (''status'', VStr ''completed''),
               (''progress'', VInt 100), (''current_step'', VStr ''completed''),
               (''result_url'', VStr ''https://mock-results.com/job-1.mp4'')]
   \<and> fst (process_job_body (\<lambda>n. ''t'') example_runtime
            (VDict (job_json (example_job ''job-9'' ''audio'' [])))
            (VStr ''job-9'') (VStr ''audio'')
            (video_worker (one_job_store ''job-1'' ''queued'') (router []) []))
       = Inl (ValueError ''Unknown job type: audio'')
   \<and> shown_status
        (worker_turn (\<lambda>n. ''t'') example_runtime
           (video_worker (one_job_store ''job-1'' ''queued'') (router [])
              [example_job ''job-9'' ''audio'' []]))
        ''job-9'' = None
   \<and> get_job_status ''t1''
        (worker_turn (\<lambda>n. ''t'') example_runtime
           (video_worker (one_job_store ''job-1'' ''queued'') (router [])
              [example_job ''job-9'' ''audio'' []]))
        ''job-9'' = None"
  by code_simp


theorem worker_survives_job_error_witness:
  "fst (process_job_body (\<lambda>n. ''t'') example_runtime
          (VDict (job_json (example_job ''job-1'' ''video''
             [(''provider'', VStr ''velo''), (''quality'', VStr ''hd''), (''duration'', VInt 8)])))
          (VStr ''job-1'') (VStr ''video'')
          (video_worker (one_job_store ''job-1'' ''queued'')
             (router [(''sora'', fixed_provider None (Inr [(''success'', VBool True)]))])
             [example_job ''job-2'' ''video'' []]))
     = Inl (TypeError (''video_clients.unified_client.UnifiedVideoClient.generate_video() got multiple values for keyword argument ''
                        @ quoted ''provider''))
   \<and> shown_status
       (worker_turn (\<lambda>n. ''t'') example_runtime
          (video_worker (one_job_store ''job-1'' ''queued'')
             (router [(''sora'', fixed_provider None (Inr [(''success'', VBool True)]))])
             [example_job ''job-1'' ''video''
                [(''provider'', VStr ''velo''), (''quality'', VStr ''hd''), (''duration'', VInt 8)],
              example_job ''job-2'' ''video'' []]))
       ''job-1'' = Some (Plain (VStr ''failed''))
   \<and> is_running (worker_loop 2 (\<lambda>n. ''t'') example_runtime
        (video_worker (one_job_store ''job-1'' ''queued'')
           (router [(''sora'', fixed_provider None (Inr [(''success'', VBool True)]))])
           [example_job ''job-1'' ''video''
              [(''provider'', VStr ''velo''), (''quality'', VStr ''hd''), (''duration'', VInt 8)],
            example_job ''job-2'' ''video'' []]))
   \<and> job_queue (worker_loop 2 (\<lambda>n. ''t'') example_runtime
        (video_worker (one_job_store ''job-1'' ''queued'')
           (router [(''sora'', fixed_provider None (Inr [(''success'', VBool True)]))])
           [example_job ''job-1'' ''video''
              [(''provider'', VStr ''velo''), (''quality'', VStr ''hd''), (''duration'', VInt 8)],
            example_job ''job-2'' ''video'' []])) = []"
proof -
  let ?d = "one_job_store ''job-1'' ''queued''"
  let ?uc = "router [(''sora'', fixed_provider None (Inr [(''success'', VBool True)]))]"
  let ?j1 = "example_job ''job-1'' ''video''
              [(''provider'', VStr ''velo''), (''quality'', VStr ''hd''), (''duration'', VInt 8)]"
  let ?j2 = "example_job ''job-2'' ''video'' []"
  let ?w = "video_worker ?d ?uc [?j1, ?j2]"
  let ?v = "video_worker ?d ?uc [?j2]"
  let ?job = "VDict (job_json ?j1)"
  let ?e = "TypeError (''video_clients.unified_client.UnifiedVideoClient.generate_video() got multiple values for keyword argument ''
                        @ quoted ''provider'')"
  let ?clock = "\<lambda>n::nat. ''t''"
  let ?u = "snd (process_job_body ?clock example_runtime ?job (VStr ''job-1'') (VStr ''video'') ?v)"
  have run: "is_running ?w" by (simp add: video_worker_def plain_worker_def)
  have nored: "redis_client ?w = None" by (simp add: video_worker_def plain_worker_def)
  have q: "job_queue ?w = [?j1, ?j2]" by (simp add: video_worker_def plain_worker_def)
  have nxt: "get_next_job ?w = (Some ?job, ?v)"
    by (simp add: get_next_job_def video_worker_def plain_worker_def)
  have jid: "py_getitem ?job ''id'' = Inr (VStr ''job-1'')" by code_simp
  have jty: "py_getitem ?job ''type'' = Inr (VStr ''video'')" by code_simp
  have err: "fst (process_job_body ?clock example_runtime ?job (VStr ''job-1'') (VStr ''video'') ?v)
               = Inl ?e"
    by code_simp
  then have body: "process_job_body ?clock example_runtime ?job (VStr ''job-1'') (VStr ''video'') ?v
               = (Inl ?e, ?u)"
    by (metis prod.collapse)
  have ready: "store_ready ?w"
    by (simp add: store_ready_def video_worker_def plain_worker_def one_job_store_def)
  have row: "holds_row ?w ''job-1''"
    by (simp add: holds_row_def in_store_def row_has_id_def video_worker_def plain_worker_def
          one_job_store_def)
  note T = worker_survives_job_error [OF nxt, of ?clock example_runtime]
  from T have B: "\<forall>jid jtype e w1.
            py_getitem ?job ''id'' = Inr jid \<and> py_getitem ?job ''type'' = Inr jtype
            \<and> process_job_body ?clock example_runtime ?job jid jtype ?v = (Inl e, w1)
            \<longrightarrow> (\<forall>s. store_ready ?w \<and> jid = VStr s \<and> holds_row ?w s \<longrightarrow>
                    shown_status (worker_turn ?clock example_runtime ?w) s
                      = Some (Plain (VStr ''failed'')))"
    by (elim conjE) blast
  from B jid jty body ready row
  have 1: "shown_status (worker_turn ?clock example_runtime ?w) ''job-1''
             = Some (Plain (VStr ''failed''))"
    by blast
  from T run have 2: "\<forall>n. is_running (worker_loop n ?clock example_runtime ?w)"
    by (elim conjE) blast
  from T run nored
  have "\<forall>n. job_queue (worker_loop n ?clock example_runtime ?w) = drop n (job_queue ?w)"
    by (elim conjE) blast
  then have 3: "job_queue (worker_loop 2 ?clock example_runtime ?w) = []"
    by (simp add: q)
  from err 1 2 3 show ?thesis by blast
qed


lemma stored_status_holds_row:
  assumes "db_client w = Some d" "stored_status d jid = Some c"
  shows "holds_row w jid"
  using assms by (auto simp: holds_row_def in_store_def stored_status_def split: list.splits)

text \<open>
  C1, as the code has it. The store applies every write the driver takes: when a
  connected store holds the job with status \<^verbatim>\<open>cancelled\<close>, a later
  \<^verbatim>\<open>_update_job_status\<close> of the worker that carries no result (the
  \<^verbatim>\<open>processing\<close> writes and both \<^verbatim>\<open>failed\<close> writes of \<^verbatim>\<open>_process_job\<close>) is
  accepted, \<^verbatim>\<open>update_generation_job\<close> returns \<^verbatim>\<open>True\<close>, and the stored status
  becomes the status written. So a cancelled job whose attempt raises, or whose provider
  reports no success, ends with the stored status \<^verbatim>\<open>failed\<close>.
\<close>

theorem worker_write_overwrites_cancelled:
  assumes "db_client w = Some d" and "connection d" and "\<not> failing d"
      and "stored_status d jid = Some (Plain (VStr ''cancelled''))"
  shows "(\<forall>st pr step em. adaptable em \<longrightarrow>
            (\<exists>d'. update_generation_job d (VStr jid)
                     (build_updates (clock (clock_reads w)) (worker_id w) st pr step
                        VNone VNone em) = (True, d')
                 \<and> db_client (update_job_status clock w (VStr jid) st pr step VNone VNone em)
                     = Some d'
                 \<and> stored_status d' jid = Some (Plain (VStr st))))
       \<and> (\<forall>job jtype rt e w1.
            py_getitem job ''id'' = Inr (VStr jid) \<and> py_getitem job ''type'' = Inr jtype
            \<and> process_job_body clock rt job (VStr jid) jtype w = (Inl e, w1)
            \<longrightarrow> shown_status (snd (process_job_run clock rt job w)) jid
                  = Some (Plain (VStr ''failed'')))
       \<and> (\<forall>job rt vc script ps result.
            py_getitem job ''id'' = Inr (VStr jid) \<and> py_getitem job ''type'' = Inr (VStr ''video'')
            \<and> video_client w = Some vc \<and> build_script job = Inr script
            \<and> job_parameters job = Inr ps \<and> call_generate_video rt vc script ps = Inr result
            \<and> \<not> truthy (dict_get result ''success'' VNone)
            \<and> adaptable (dict_get result ''error'' (VStr ''Unknown error''))
            \<longrightarrow> shown_status (snd (process_job_run clock rt job w)) jid
                  = Some (Plain (VStr ''failed'')))"
proof (intro conjI allI impI)
  fix st pr step em
  assume em: "adaptable em"
  let ?us = "build_updates (clock (clock_reads w)) (worker_id w) st pr step VNone VNone em"
  have acc: "driver_accepts (VStr jid) ?us"
    using em by (simp add: driver_accepts_plain)
  have ins: "in_store d jid"
    using assms(4) by (auto simp: in_store_def stored_status_def split: list.splits)
  have st: "stored_status (snd (update_generation_job d (VStr jid) ?us)) jid = Some (Plain (VStr st))"
    using assms(2,3) acc ins
    by (intro stored_status_after_update build_updates_no_id build_updates_distinct
          build_updates_status)
  have fst: "fst (update_generation_job d (VStr jid) ?us) = True"
    using assms(2,3) acc by (simp add: update_generation_job_def)
  show "\<exists>d'. update_generation_job d (VStr jid) ?us = (True, d')
           \<and> db_client (update_job_status clock w (VStr jid) st pr step VNone VNone em) = Some d'
           \<and> stored_status d' jid = Some (Plain (VStr st))"
    using st fst assms(1)
    by (cases "update_generation_job d (VStr jid) ?us") (simp add: update_job_status_def)
next
  fix job jtype rt e w1
  assume h: "py_getitem job ''id'' = Inr (VStr jid) \<and> py_getitem job ''type'' = Inr jtype
            \<and> process_job_body clock rt job (VStr jid) jtype w = (Inl e, w1)"
  have ready: "store_ready w"
    using assms(1,2,3) by (simp add: store_ready_def)
  have row: "holds_row w jid"
    using assms(1,4) by (rule stored_status_holds_row)
  have w1: "w1 = snd (process_job_body clock rt job (VStr jid) jtype w)"
    using h by simp
  have ready1: "store_ready w1"
    unfolding w1
    using process_job_body_preserves [of store_ready clock, OF update_job_status_ready] ready
    by simp
  have row1: "holds_row w1 jid"
    unfolding w1
    using process_job_body_preserves [of "\<lambda>v. holds_row v jid" clock,
            OF update_job_status_holds_row] row
    by simp
  have "snd (process_job_run clock rt job w)
          = update_job_status clock w1 (VStr jid) ''failed'' 0 ''Processing error''
              VNone VNone (VStr (exn_str e))"
    using h by (simp add: process_job_run_def)
  then show "shown_status (snd (process_job_run clock rt job w)) jid
               = Some (Plain (VStr ''failed''))"
    using ready1 row1 by (simp add: update_job_status_shown driver_accepts_plain)
next
  fix job rt vc script ps result
  assume h: "py_getitem job ''id'' = Inr (VStr jid) \<and> py_getitem job ''type'' = Inr (VStr ''video'')
            \<and> video_client w = Some vc \<and> build_script job = Inr script
            \<and> job_parameters job = Inr ps \<and> call_generate_video rt vc script ps = Inr result
            \<and> \<not> truthy (dict_get result ''success'' VNone)
            \<and> adaptable (dict_get result ''error'' (VStr ''Unknown error''))"
  have ready: "store_ready w"
    using assms(1,2,3) by (simp add: store_ready_def)
  have row: "holds_row w jid"
    using assms(1,4) by (rule stored_status_holds_row)
  show "shown_status (snd (process_job_run clock rt job w)) jid
               = Some (Plain (VStr ''failed''))"
    using h ready row
    by (simp add: process_job_run_def process_job_body_def process_video_job_def Let_def
          update_job_status_shown driver_accepts_plain update_job_status_ready
          update_job_status_holds_row update_job_status_frame)
qed

text \<open>
  C1 as stated fails: after \<^verbatim>\<open>cancel_job\<close> the stored status is \<^verbatim>\<open>cancelled\<close>, and
  processing the job, whose provider reports no success, turns it into \<^verbatim>\<open>failed\<close>.
\<close>

theorem cancellation_overwritten_counterexample:
  "shown_status
     (snd (cancel_job ''t0''
        (video_worker (one_job_store ''job-1'' ''processing'')
           (router [(''sora'', fixed_provider None
                       (Inr [(''success'', VBool False), (''error'', VStr ''quota exceeded'')]))])
           [])
        ''job-1''))
     ''job-1'' = Some (Plain (VStr ''cancelled''))
   \<and> shown_status
       (process_job (\<lambda>n. ''t'') example_runtime
          (example_job ''job-1'' ''video'' [(''duration'', VInt 8)])
          (snd (cancel_job ''t0''
             (video_worker (one_job_store ''job-1'' ''processing'')
                (router [(''sora'', fixed_provider None
                            (Inr [(''success'', VBool False), (''error'', VStr ''quota exceeded'')]))])
                [])
             ''job-1'')))
       ''job-1'' = Some (Plain (VStr ''failed''))"
  by code_simp

theorem worker_write_overwrites_cancelled_witness:
  "stored_status (one_job_store ''job-1'' ''cancelled'') ''job-1'' = Some (Plain (VStr ''cancelled''))
   \<and> (\<exists>d'. db_client (update_job_status (\<lambda>n. ''t1'')
                (plain_worker (Some (one_job_store ''job-1'' ''cancelled'')))
                (VStr ''job-1'') ''failed'' 0 ''Processing error'' VNone VNone (VStr ''boom''))
              = Some d'
          \<and> stored_status d' ''job-1'' = Some (Plain (VStr ''failed'')))"
proof -
  have a: "db_client (plain_worker (Some (one_job_store ''job-1'' ''cancelled'')))
             = Some (one_job_store ''job-1'' ''cancelled'')"
    by (simp add: plain_worker_def)
  have b: "connection (one_job_store ''job-1'' ''cancelled'')"
    and c: "\<not> failing (one_job_store ''job-1'' ''cancelled'')"
    by (simp_all add: one_job_store_def)
  have d: "stored_status (one_job_store ''job-1'' ''cancelled'') ''job-1''
             = Some (Plain (VStr ''cancelled''))"
    by (simp add: one_job_store_def stored_status_def row_has_id_def)
  have e: "adaptable (VStr ''boom'')" by simp
  from worker_write_overwrites_cancelled [OF a b c d, of "\<lambda>n. ''t1''"]
  have "\<forall>st pr step em. adaptable em \<longrightarrow>
            (\<exists>d'. db_client (update_job_status (\<lambda>n. ''t1'')
                      (plain_worker (Some (one_job_store ''job-1'' ''cancelled'')))
                      (VStr ''job-1'') st pr step VNone VNone em) = Some d'
                 \<and> stored_status d' ''job-1'' = Some (Plain (VStr st)))"
    by (elim conjE) blast
  with e d show ?thesis by blast
qed


text \<open>
  C5 as stated fails: when the provider reports no success the writes are 10, 30, 90 and
  then 0, which is not non-decreasing.
\<close>

theorem failed_attempt_progress_counterexample:
  "writes_since
     (video_worker (one_job_store ''job-1'' ''queued'')
        (router [(''sora'', fixed_provider None
                    (Inr [(''success'', VBool False), (''error'', VStr ''quota exceeded'')]))])
        [])
     (process_job (\<lambda>n. ''t'') example_runtime
        (example_job ''job-1'' ''video'' [(''duration'', VInt 8)])
        (video_worker (one_job_store ''job-1'' ''queued'')
           (router [(''sora'', fixed_provider None
                       (Inr [(''success'', VBool False), (''error'', VStr ''quota exceeded'')]))])
           []))
   = [(VStr ''job-1'', VStr ''processing'', VInt 10), (VStr ''job-1'', VStr ''processing'', VInt 30),
      (VStr ''job-1'', VStr ''processing'', VInt 90), (VStr ''job-1'', VStr ''failed'', VInt 0)]
   \<and> \<not> sorted (progress_written
     (video_worker (one_job_store ''job-1'' ''queued'')
        (router [(''sora'', fixed_provider None
                    (Inr [(''success'', VBool False), (''error'', VStr ''quota exceeded'')]))])
        [])
     (process_job (\<lambda>n. ''t'') example_runtime
        (example_job ''job-1'' ''video'' [(''duration'', VInt 8)])
        (video_worker (one_job_store ''job-1'' ''queued'')
           (router [(''sora'', fixed_provider None
                       (Inr [(''success'', VBool False), (''error'', VStr ''quota exceeded'')]))])
           [])))"
  by code_simp

theorem process_job_progress_sequence_witness:
  "call_generate_video example_runtime
     (router [(''sora'', fixed_provider None
                 (Inr [(''success'', VBool False), (''error'', VStr ''quota exceeded'')]))])
     [(''prompt'', VStr ''a calm lake at sunrise''),
      (''scenes'', VList [VDict [(''description'', VStr ''a calm lake at sunrise''),
                                 (''duration'', VInt 8)]]),
      (''duration'', VInt 8), (''persona_ids'', VList [])]
     [(''duration'', VInt 8)]
   = Inr [(''success'', VBool False), (''error'', VStr ''quota exceeded''),
          (''unified_client_version'', VStr ''1.0.0''),
          (''selected_provider'', VStr ''sora''),
          (''provider_selection_reason'', VStr ''Auto-selected sora based on availability'')]
   \<and> writes_since
     (video_worker (one_job_store ''job-1'' ''queued'')
        (router [(''sora'', fixed_provider None
                    (Inr [(''success'', VBool False), (''error'', VStr ''quota exceeded'')]))])
        [])
     (snd (process_job_run (\<lambda>n. ''t'') example_runtime
        (VDict (job_json (example_job ''job-1'' ''video'' [(''duration'', VInt 8)])))
        (video_worker (one_job_store ''job-1'' ''queued'')
           (router [(''sora'', fixed_provider None
                       (Inr [(''success'', VBool False), (''error'', VStr ''quota exceeded'')]))])
           [])))
   = [(VStr ''job-1'', VStr ''processing'', VInt 10), (VStr ''job-1'', VStr ''processing'', VInt 30),
      (VStr ''job-1'', VStr ''processing'', VInt 90), (VStr ''job-1'', VStr ''failed'', VInt 0)]"
proof -
  let ?uc = "router [(''sora'', fixed_provider None
                 (Inr [(''success'', VBool False), (''error'', VStr ''quota exceeded'')]))]"
  let ?w = "video_worker (one_job_store ''job-1'' ''queued'') ?uc []"
  let ?job = "VDict (job_json (example_job ''job-1'' ''video'' [(''duration'', VInt 8)]))"
  let ?script = "[(''prompt'', VStr ''a calm lake at sunrise''),
      (''scenes'', VList [VDict [(''description'', VStr ''a calm lake at sunrise''),
                                 (''duration'', VInt 8)]]),
      (''duration'', VInt 8), (''persona_ids'', VList [])]"
  let ?result = "[(''success'', VBool False), (''error'', VStr ''quota exceeded''),
          (''unified_client_version'', VStr ''1.0.0''),
          (''selected_provider'', VStr ''sora''),
          (''provider_selection_reason'', VStr ''Auto-selected sora based on availability'')]"
  have ready: "store_ready ?w"
    by (simp add: store_ready_def video_worker_def plain_worker_def one_job_store_def)
  have jid: "py_getitem ?job ''id'' = Inr (VStr ''job-1'')" by code_simp
  have ad: "adaptable (VStr ''job-1'')" by simp
  have jty: "py_getitem ?job ''type'' = Inr (VStr ''video'')" by code_simp
  have vc: "video_client ?w = Some ?uc" by (simp add: video_worker_def plain_worker_def)
  have sc: "build_script ?job = Inr ?script" by code_simp
  have ps: "job_parameters ?job = Inr [(''duration'', VInt 8)]" by code_simp
  have call: "call_generate_video example_runtime ?uc ?script [(''duration'', VInt 8)] = Inr ?result"
    by code_simp
  have ns: "\<not> truthy (dict_get ?result ''success'' VNone)" by code_simp
  have ae: "adaptable (dict_get ?result ''error'' (VStr ''Unknown error''))" by code_simp
  from process_job_progress_sequence [OF ready jid ad jty, of "\<lambda>n. ''t''" example_runtime]
  have "\<forall>vc script ps result.
            VStr ''video'' = VStr ''video'' \<and> video_client ?w = Some vc \<and> build_script ?job = Inr script
            \<and> job_parameters ?job = Inr ps \<and> call_generate_video example_runtime vc script ps = Inr result
            \<and> \<not> truthy (dict_get result ''success'' VNone)
            \<and> adaptable (dict_get result ''error'' (VStr ''Unknown error'')) \<longrightarrow>
            writes_since ?w (snd (process_job_run (\<lambda>n. ''t'') example_runtime ?job ?w)) =
              [(VStr ''job-1'', VStr ''processing'', VInt 10), (VStr ''job-1'', VStr ''processing'', VInt 30),
               (VStr ''job-1'', VStr ''processing'', VInt 90), (VStr ''job-1'', VStr ''failed'', VInt 0)]"
    by (elim conjE)
  with vc sc ps call ns ae
  have "writes_since ?w (snd (process_job_run (\<lambda>n. ''t'') example_runtime ?job ?w)) =
              [(VStr ''job-1'', VStr ''processing'', VInt 10), (VStr ''job-1'', VStr ''processing'', VInt 30),
               (VStr ''job-1'', VStr ''processing'', VInt 90), (VStr ''job-1'', VStr ''failed'', VInt 0)]"
    by blast
  with call show ?thesis by blast
qed


subsection \<open>Enqueueing\<close>

lemma add_to_queue_result:
  "\<exists>w'. add_to_queue w j = (Inr (), w') \<and> db_client w' = db_client w \<and> on_queue w' j"
  by (auto simp: add_to_queue_def on_queue_def split: option.splits)

lemma process_job_store:
  assumes db: "db_client w = Some d"
  shows "\<exists>d'. db_client (process_job clock rt j w) = Some d' \<and> (\<forall>x. in_store d' x = in_store d x)"
proof -
  have "(db_client (process_job clock rt j w) = None) = (db_client w = None)"
    unfolding process_job_def
    by (rule process_job_run_preserves [of "\<lambda>v. db_client v = None" clock])
       (rule update_job_status_no_store)
  with db obtain d' where d': "db_client (process_job clock rt j w) = Some d'"
    by auto
  have "\<And>x. holds_row (process_job clock rt j w) x = holds_row w x"
    unfolding process_job_def
    by (rule process_job_run_preserves [of "\<lambda>v. holds_row v x" clock for x])
       (rule update_job_status_holds_row)
  then have "\<forall>x. in_store d' x = in_store d x"
    by (simp add: holds_row_def d' db)
  with d' show ?thesis by blast
qed

text \<open>
  C9. When \<^verbatim>\<open>create_generation_job\<close> raises, \<^verbatim>\<open>queue_generation_job\<close> still puts
  the job on the queue and returns its id; the store is unchanged, so a job that was not
  in the store is not in it either after the worker has processed it.
\<close>

theorem queue_generation_job_swallows_db_error:
  assumes db: "db_client w = Some d"
      and raises: "fst (create_generation_job d (new_job now new_id jtype pids prm params)) = Inl e"
  shows "\<exists>w'. queue_generation_job now new_id w jtype pids prm params = (Inr new_id, w')
            \<and> on_queue w' (new_job now new_id jtype pids prm params)
            \<and> db_client w' = Some d
            \<and> (\<not> in_store d new_id \<longrightarrow>
                 (\<forall>clock rt. \<exists>d'.
                    db_client (process_job clock rt (new_job now new_id jtype pids prm params) w')
                      = Some d'
                    \<and> \<not> in_store d' new_id))"
proof -
  let ?j = "new_job now new_id jtype pids prm params"
  have same: "snd (create_generation_job d ?j) = d"
    using raises by (auto simp: create_generation_job_def split: if_splits)
  define w1 where "w1 = w\<lparr>db_client := Some d\<rparr>"
  from add_to_queue_result [of w1 ?j]
  obtain w' where w': "add_to_queue w1 ?j = (Inr (), w')" "db_client w' = db_client w1"
      "on_queue w' ?j"
    by blast
  have q: "queue_generation_job now new_id w jtype pids prm params = (Inr new_id, w')"
    using db same w'(1) by (simp add: queue_generation_job_def Let_def w1_def)
  have dbw: "db_client w' = Some d" using w'(2) by (simp add: w1_def)
  have "\<forall>clock rt. \<exists>d'. db_client (process_job clock rt ?j w') = Some d'
            \<and> in_store d' new_id = in_store d new_id"
    using process_job_store [OF dbw] by blast
  with q w'(3) dbw show ?thesis by auto
qed

text \<open>
  C2, as the code has it. When Redis is configured and raises at enqueue time,
  \<^verbatim>\<open>_add_to_queue\<close> catches the exception, appends the job to the in-memory
  \<^verbatim>\<open>job_queue\<close> and returns normally; \<^verbatim>\<open>queue_generation_job\<close> returns the job id
  as it does after an enqueue that worked.
\<close>

theorem add_to_queue_falls_back:
  assumes "redis_client w = Some r" and "redis_failing r"
  shows "add_to_queue w job_data = (Inr (), w\<lparr>job_queue := job_queue w @ [job_data]\<rparr>)
       \<and> (\<exists>w'. queue_generation_job now new_id w jtype pids prm params = (Inr new_id, w')
              \<and> job_queue w' = job_queue w @ [new_job now new_id jtype pids prm params]
              \<and> redis_client w' = Some r)"
proof -
  have a: "\<And>v. redis_client v = Some r \<Longrightarrow>
             add_to_queue v job_data = (Inr (), v\<lparr>job_queue := job_queue v @ [job_data]\<rparr>)" for job_data
    using assms(2) by (simp add: add_to_queue_def)
  show ?thesis
    using assms(1) a [OF assms(1)]
    by (cases "db_client w") (simp_all add: queue_generation_job_def Let_def a)
qed

theorem queue_generation_job_swallows_db_error_witness:
  "fst (create_generation_job ((one_job_store ''job-1'' ''queued'')\<lparr>failing := True\<rparr>)
          (new_job ''t0'' ''job-9'' ''video'' [] ''a calm lake'' []))
     = Inl (OtherError ''database error'')
   \<and> fst (queue_generation_job ''t0'' ''job-9''
            (plain_worker (Some ((one_job_store ''job-1'' ''queued'')\<lparr>failing := True\<rparr>)))
            ''video'' [] ''a calm lake'' []) = Inr ''job-9''
   \<and> on_queue (snd (queue_generation_job ''t0'' ''job-9''
            (plain_worker (Some ((one_job_store ''job-1'' ''queued'')\<lparr>failing := True\<rparr>)))
            ''video'' [] ''a calm lake'' []))
         (new_job ''t0'' ''job-9'' ''video'' [] ''a calm lake'' [])
   \<and> \<not> in_store (the (db_client (snd (queue_generation_job ''t0'' ''job-9''
            (plain_worker (Some ((one_job_store ''job-1'' ''queued'')\<lparr>failing := True\<rparr>)))
            ''video'' [] ''a calm lake'' [])))) ''job-9''
   \<and> \<not> in_store (the (db_client
          (process_job (\<lambda>n. ''t'') example_runtime
             (new_job ''t0'' ''job-9'' ''video'' [] ''a calm lake'' [])
             (snd (queue_generation_job ''t0'' ''job-9''
                (plain_worker (Some ((one_job_store ''job-1'' ''queued'')\<lparr>failing := True\<rparr>)))
                ''video'' [] ''a calm lake'' []))))) ''job-9''"
proof -
  let ?d = "(one_job_store ''job-1'' ''queued'')\<lparr>failing := True\<rparr>"
  let ?w = "plain_worker (Some ?d)"
  let ?j = "new_job ''t0'' ''job-9'' ''video'' [] ''a calm lake'' []"
  have a: "db_client ?w = Some ?d" by (simp add: plain_worker_def)
  have b: "fst (create_generation_job ?d ?j) = Inl (OtherError ''database error'')"
    by (simp add: create_generation_job_def one_job_store_def)
  have c: "\<not> in_store ?d ''job-9''" by code_simp
  from queue_generation_job_swallows_db_error [OF a b]
  obtain w' where w': "queue_generation_job ''t0'' ''job-9'' ?w ''video'' [] ''a calm lake'' []
                         = (Inr ''job-9'', w')"
      "on_queue w' ?j"
      "db_client w' = Some ?d"
      "\<not> in_store ?d ''job-9'' \<longrightarrow>
         (\<forall>clock rt. \<exists>d'. db_client (process_job clock rt ?j w') = Some d'
                            \<and> \<not> in_store d' ''job-9'')"
    by (elim exE conjE) (rule that; assumption)
  from w'(4) c obtain d' where
    "db_client (process_job (\<lambda>n. ''t'') example_runtime ?j w') = Some d'" "\<not> in_store d' ''job-9''"
    by blast
  with w'(1,2,3) b c show ?thesis by simp
qed

theorem add_to_queue_falls_back_witness:
  "add_to_queue (redis_worker \<lparr>redis_failing = True, generation_queue = []\<rparr>)
       (new_job ''t0'' ''job-1'' ''video'' [] ''a calm lake'' [])
     = (Inr (), (redis_worker \<lparr>redis_failing = True, generation_queue = []\<rparr>)
                  \<lparr>job_queue := [new_job ''t0'' ''job-1'' ''video'' [] ''a calm lake'' []]\<rparr>)"
proof -
  let ?r = "\<lparr>redis_failing = True, generation_queue = []\<rparr>"
  have a: "redis_client (redis_worker ?r) = Some ?r"
    by (simp add: redis_worker_def plain_worker_def)
  have b: "redis_failing ?r" by simp
  have c: "job_queue (redis_worker ?r) = []" by (simp add: redis_worker_def plain_worker_def)
  from add_to_queue_falls_back [OF a b, of "new_job ''t0'' ''job-1'' ''video'' [] ''a calm lake'' []"]
  show ?thesis by (simp add: c)
qed

text \<open>
  C2 as stated fails: with Redis raising, the call reports success, the job sits in the
  in-memory queue and the Redis list is unchanged.
\<close>

theorem silent_queue_fallback_counterexample:
  "fst (queue_generation_job ''t0'' ''job-1''
          (redis_worker \<lparr>redis_failing = True, generation_queue = []\<rparr>)
          ''video'' [] ''a calm lake'' []) = Inr ''job-1''
   \<and> job_queue (snd (queue_generation_job ''t0'' ''job-1''
          (redis_worker \<lparr>redis_failing = True, generation_queue = []\<rparr>)
          ''video'' [] ''a calm lake'' []))
       = [new_job ''t0'' ''job-1'' ''video'' [] ''a calm lake'' []]
   \<and> redis_client (snd (queue_generation_job ''t0'' ''job-1''
          (redis_worker \<lparr>redis_failing = True, generation_queue = []\<rparr>)
          ''video'' [] ''a calm lake'' []))
       = Some \<lparr>redis_failing = True, generation_queue = []\<rparr>"
  by (simp add: queue_generation_job_def add_to_queue_def redis_worker_def plain_worker_def)

end
